theory Spec2Isabelle
  imports Complex_Main "HOL-Library.Char_ord" "HOL-Library.List_Lexorder" "HOL-Library.Multiset"
begin

section \<open>Python values shared by both scripts\<close>

text \<open>
  Exceptions are values: a class and the message \<open>str(e)\<close> gives back. A computation that
  may raise returns \<open>exc + 'a\<close>, with \<open>Inl\<close> the exception. The classes are subclasses of
  \<open>Exception\<close>, which is what the library calls of the two scripts raise; an interrupt
  delivered by a signal is outside this sequential model.
\<close>

datatype exc_kind =
    IndexError | FileNotFoundError | FileExistsError | IsADirectoryError
  | NotADirectoryError | CalledProcessError | ZeroDivisionError | OtherException

datatype exc = Exc (kind: exc_kind) (message: string)

text \<open>\<open>s[i]\<close> on a \<open>str\<close> with a non-negative index: out of range raises \<open>IndexError\<close>.\<close>

definition getitem :: "string \<Rightarrow> nat \<Rightarrow> exc + char" where
  "getitem s i =
     (if i < length s then Inr (s ! i)
      else Inl (Exc IndexError ''string index out of range''))"

text \<open>\<open>s.endswith(suffix)\<close> and \<open>s.startswith(prefix)\<close>.\<close>

definition endswith :: "string \<Rightarrow> string \<Rightarrow> bool" where
  "endswith s suffix = (drop (length s - length suffix) s = suffix)"

definition startswith :: "string \<Rightarrow> string \<Rightarrow> bool" where
  "startswith s pre = (take (length pre) s = pre)"

section \<open>scripts/util.py: the dependency constraint formatter\<close>

text \<open>
  \<open>format_dependency(name, version)\<close>, lines 29 to 41. \<open>start\<close> and \<open>operator\<close> are the
  two local variables; \<open>version[:2]\<close> is \<open>take 2\<close> and \<open>version[start:]\<close> is \<open>drop start\<close>.
  The reads \<open>version[0]\<close> and \<open>version[1]\<close> raise on a string that is too short.
\<close>

definition format_dependency :: "string \<Rightarrow> string \<Rightarrow> exc + string" where
  "format_dependency name version =
     (let start = (0::nat); operator = ''=='' in
      case getitem version 0 of
        Inl e \<Rightarrow> Inl e
      | Inr c0 \<Rightarrow>
          (case (if c0 \<in> {CHR ''<'', CHR ''>''} then
                   (case getitem version 1 of
                      Inl e \<Rightarrow> Inl e
                    | Inr c1 \<Rightarrow>
                        if c1 \<noteq> CHR ''='' then Inr ([c0], 1)
                        else Inr (take 2 version, 2))
                 else Inr (operator, start)) of
             Inl e \<Rightarrow> Inl e
           | Inr (operator, start) \<Rightarrow>
               Inr (name @ '' '' @ operator @ '' '' @ drop start version)))"

section \<open>The environment of both scripts\<close>

text \<open>
  \<open>subprocess.run\<close> either returns a completed process (exit code, captured standard
  output, captured standard error) or raises because the program could not be started.
  The environment decides which, per argument vector.
\<close>

datatype proc = Completed (returncode: int) (stdout: string) (stderr: string) | Failed exc

record env =
  subprocess_run :: "string list \<Rightarrow> proc"

section \<open>scripts/test.py: discovery\<close>

text \<open>
  A directory tree as \<open>os.walk\<close> sees it: an entry is a directory with its listing (in the
  order \<open>scandir\<close> returns it) or anything else, which \<open>os.walk\<close> reports as a file.
\<close>

datatype tree = File | Dir "(string \<times> tree) list"

text \<open>\<open>os.path.join(a, b)\<close> of \<open>posixpath\<close>.\<close>

definition os_path_join :: "string \<Rightarrow> string \<Rightarrow> string" where
  "os_path_join a b =
     (if startswith b ''/'' then b
      else if a = [] \<or> endswith a ''/'' then a @ b
      else a @ ''/'' @ b)"

definition dirnames :: "(string \<times> tree) list \<Rightarrow> string list" where
  "dirnames entries = map fst (filter (\<lambda>(name, t). t \<noteq> File) entries)"

definition filenames :: "(string \<times> tree) list \<Rightarrow> string list" where
  "filenames entries = map fst (filter (\<lambda>(name, t). t = File) entries)"

text \<open>
  \<open>os.walk(top)\<close>, top-down, not following links, errors ignored: a top that is not a
  directory yields nothing; a directory yields \<open>(top, dirs, files)\<close> and then the walk of
  each subdirectory \<open>join(top, name)\<close> in listing order.
\<close>

fun os_walk :: "string \<Rightarrow> tree \<Rightarrow> (string \<times> string list \<times> string list) list"
and walk_into :: "string \<Rightarrow> (string \<times> tree) list \<Rightarrow> (string \<times> string list \<times> string list) list"
where
  "os_walk dir File = []"
| "os_walk dir (Dir entries) =
     (dir, dirnames entries, filenames entries) # walk_into dir entries"
| "walk_into dir [] = []"
| "walk_into dir ((name, File) # entries) = walk_into dir entries"
| "walk_into dir ((name, Dir sub) # entries) =
     os_walk (os_path_join dir name) (Dir sub) @ walk_into dir entries"

record test_env = env +
  resolve :: "string \<Rightarrow> tree option"
  clock :: "nat \<Rightarrow> real"

text \<open>
  \<open>resolve\<close> is what the operating system finds at a path (\<open>None\<close>: nothing);
  \<open>clock\<close> gives the successive readings of \<open>time.time()\<close>.
\<close>

definition walk :: "test_env \<Rightarrow> string \<Rightarrow> (string \<times> string list \<times> string list) list" where
  "walk e d = (case resolve e d of None \<Rightarrow> [] | Some t \<Rightarrow> os_walk d t)"

text \<open>
  The two nested loops of lines 13 to 16 over what \<open>os.walk\<close> yields: \<open>join(root, file)\<close>
  is appended for every file name with the suffix.
\<close>

definition collect :: "(string \<times> string list \<times> string list) list \<Rightarrow> string list" where
  "collect walked =
     concat (map (\<lambda>(root, _, files).
               map (os_path_join root) (filter (\<lambda>file. endswith file ''.mojo'') files))
             walked)"

text \<open>
  \<open>find_mojo_test_files(tests_dir)\<close>, lines 10 to 17. Python orders strings by code
  point, shorter prefix first: the lexicographic order on \<open>char list\<close>.
\<close>

definition find_mojo_test_files :: "test_env \<Rightarrow> string \<Rightarrow> string list" where
  "find_mojo_test_files e tests_dir =
     (let test_files = collect (walk e tests_dir) in sort test_files)"

text \<open>
  What the discovery is measured against. \<open>file_at d t name p\<close>: in the tree \<open>t\<close> found
  at \<open>d\<close>, a file called \<open>name\<close> has the path \<open>p\<close>. \<open>relisted t t'\<close>: the same tree, its
  directories listed in another order.
\<close>

inductive file_at :: "string \<Rightarrow> tree \<Rightarrow> string \<Rightarrow> string \<Rightarrow> bool" where
  here: "(name, File) \<in> set entries \<Longrightarrow> file_at d (Dir entries) name (os_path_join d name)"
| below: "(sub, t) \<in> set entries \<Longrightarrow> file_at (os_path_join d sub) t name p
          \<Longrightarrow> file_at d (Dir entries) name p"

inductive relisted :: "tree \<Rightarrow> tree \<Rightarrow> bool" where
  same: "relisted t t"
| swap: "relisted (Dir (xs @ a # b # ys)) (Dir (xs @ b # a # ys))"
| inside: "relisted t t' \<Longrightarrow> relisted (Dir (xs @ (name, t) # ys)) (Dir (xs @ (name, t') # ys))"
| chain: "relisted t t' \<Longrightarrow> relisted t' t'' \<Longrightarrow> relisted t t''"

section \<open>scripts/test.py: running the tests\<close>

text \<open>
  What the script prints, one constructor per \<open>print\<close> call, carrying the values the
  format string interpolates.
\<close>

datatype line =
    NoFilesNotice
  | Found nat
  | Separator
  | Running nat nat string
  | PassedIn real
  | FailedIn real
  | ErrorOutput string
  | SummaryHeader
  | TotalFiles nat
  | PassedCount nat
  | FailedCount nat
  | TotalRuntime real
  | AveragePerFile real

text \<open>
  The state the run threads: how many times the clock has been read, the lines printed
  and the commands handed to \<open>subprocess.run\<close>, oldest first.
\<close>

record runner =
  ticks :: nat
  printed :: "line list"
  invoked :: "string list list"

definition print_line :: "line \<Rightarrow> runner \<Rightarrow> runner" where
  "print_line l r = r\<lparr>printed := printed r @ [l]\<rparr>"

definition time_time :: "test_env \<Rightarrow> runner \<Rightarrow> real \<times> runner" where
  "time_time e r = (clock e (ticks r), r\<lparr>ticks := Suc (ticks r)\<rparr>)"

text \<open>
  \<open>run_test(test_file)\<close>, lines 20 to 33. The \<open>except Exception\<close> branch takes every
  exception \<open>subprocess.run\<close> raises; the result is the tuple
  \<open>(success, duration, stdout, stderr)\<close>.
\<close>

definition run_test ::
  "test_env \<Rightarrow> string \<Rightarrow> runner \<Rightarrow> (bool \<times> real \<times> string \<times> string) \<times> runner" where
  "run_test e test_file r =
     (let (start_time, r1) = time_time e r;
          argv = [''pixi'', ''run'', ''test'', test_file];
          r2 = r1\<lparr>invoked := invoked r1 @ [argv]\<rparr>
      in case subprocess_run e argv of
           Completed rc out err \<Rightarrow>
             (let (now, r3) = time_time e r2; duration = now - start_time
              in ((rc = 0, duration, out, err), r3))
         | Failed ex \<Rightarrow>
             (let (now, r3) = time_time e r2; duration = now - start_time
              in ((False, duration, [], message ex), r3)))"

text \<open>The loop of \<open>main\<close>, lines 53 to 65, over \<open>enumerate(test_files, 1)\<close>.\<close>

fun run_all ::
  "test_env \<Rightarrow> nat \<Rightarrow> (nat \<times> string) list \<Rightarrow> nat \<times> nat \<times> runner \<Rightarrow> nat \<times> nat \<times> runner" where
  "run_all e n [] st = st"
| "run_all e n ((i, test_file) # rest) (passed, failed, r) =
     (let r1 = print_line (Running i n test_file) r;
          ((success, duration, out, err), r2) = run_test e test_file r1
      in if success then
           run_all e n rest (passed + 1, failed, print_line (PassedIn duration) r2)
         else
           (let r3 = print_line (FailedIn duration) r2;
                r4 = (if err \<noteq> [] then print_line (ErrorOutput err) r3 else r3)
            in run_all e n rest (passed, failed + 1, r4)))"

text \<open>\<open>a / n\<close> for a float and an int: a zero divisor raises.\<close>

definition truediv :: "real \<Rightarrow> nat \<Rightarrow> exc + real" where
  "truediv a n =
     (if n = 0 then Inl (Exc ZeroDivisionError ''float division by zero'')
      else Inr (a / real n))"

text \<open>
  How the process ends: \<open>main\<close> returned, \<open>exit(n)\<close> was called, or an exception reached
  the top level. The interpreter turns these into the exit status.
\<close>

datatype ending = Returned | SystemExit int | Uncaught exc

fun exit_status :: "ending \<Rightarrow> int" where
  "exit_status Returned = 0"
| "exit_status (SystemExit n) = n"
| "exit_status (Uncaught ex) = 1"

definition start :: runner where
  "start = \<lparr>ticks = 0, printed = [], invoked = []\<rparr>"

text \<open>\<open>main()\<close>, lines 36 to 79.\<close>

definition main :: "test_env \<Rightarrow> ending \<times> runner" where
  "main e =
     (let tests_dir = ''tests'';
          test_files = find_mojo_test_files e tests_dir
      in if test_files = [] then (Returned, print_line NoFilesNotice start)
         else
           (let r1 = print_line Separator (print_line (Found (length test_files)) start);
                (total_start_time, r2) = time_time e r1;
                (passed, failed, r3) =
                   run_all e (length test_files)
                     (zip [1 ..< Suc (length test_files)] test_files) (0, 0, r2);
                (now, r4) = time_time e r3;
                total_duration = now - total_start_time;
                r5 = print_line (TotalRuntime total_duration)
                       (print_line (FailedCount failed)
                         (print_line (PassedCount passed)
                           (print_line (TotalFiles (length test_files))
                             (print_line SummaryHeader (print_line Separator r4)))))
            in case truediv total_duration (length test_files) of
                 Inl ex \<Rightarrow> (Uncaught ex, r5)
               | Inr average \<Rightarrow>
                   (let r6 = print_line (AveragePerFile average) r5
                    in if failed > 0 then (SystemExit 1, r6) else (Returned, r6))))"

text \<open>
  The files of a run that fail: those on which \<open>run_test\<close> reports \<open>success = False\<close>.
\<close>

definition fails :: "test_env \<Rightarrow> string \<Rightarrow> bool" where
  "fails e f = (\<not> fst (fst (run_test e f start)))"

definition failed_files :: "test_env \<Rightarrow> string list" where
  "failed_files e = filter (fails e) (find_mojo_test_files e ''tests'')"

subsection \<open>Three concrete runs\<close>

definition example_tree :: tree where
  "example_tree =
     Dir [(''b.mojo'', File),
          (''sub'', Dir [(''a.mojo'', File), (''x.py'', File), (''d.mojo'', Dir [])]),
          (''a.mojo'', File)]"

definition example_tree_relisted :: tree where
  "example_tree_relisted =
     Dir [(''sub'', Dir [(''a.mojo'', File), (''x.py'', File), (''d.mojo'', Dir [])]),
          (''b.mojo'', File),
          (''a.mojo'', File)]"

definition example_run :: "string list \<Rightarrow> proc" where
  "example_run argv =
     (if argv = [''pixi'', ''run'', ''test'', ''tests/b.mojo''] then Completed 2 ''out'' ''boom''
      else if argv = [''pixi'', ''run'', ''test'', ''tests/a.mojo'']
        then Failed (Exc FileNotFoundError ''pixi: not found'')
      else Completed 0 ''ok'' [])"

definition example_env :: test_env where
  "example_env =
     \<lparr>subprocess_run = example_run,
      resolve = (\<lambda>p. if p = ''tests'' then Some example_tree else None),
      clock = (\<lambda>n. real n)\<rparr>"

definition relisted_env :: test_env where
  "relisted_env =
     example_env\<lparr>resolve := (\<lambda>p. if p = ''tests'' then Some example_tree_relisted else None)\<rparr>"

definition empty_env :: test_env where
  "empty_env = example_env\<lparr>resolve := (\<lambda>p. None)\<rparr>"

section \<open>scripts/util.py: the file system and the external programs\<close>

text \<open>
  The file system as the packaging helper uses it: the objects that exist, each under the
  path string that names it, in the order a directory listing returns them. A path is a
  name: two different strings are taken to name two different objects.
\<close>

datatype entry = RegularFile string | Directory

type_synonym filesystem = "(string \<times> entry) list"

text \<open>What a command did, oldest first: the observable actions of a run.\<close>

datatype event =
    Print string
  | Ran "string list" int
  | Wrote string string
  | Unlink string
  | Rmtree string
  | Mkdir string

record world =
  fs :: filesystem
  trace :: "event list"

text \<open>A command returns normally or raises; either way it leaves a world behind.\<close>

datatype outcome = Done | Raise exc

definition emit :: "event \<Rightarrow> world \<Rightarrow> world" where
  "emit ev w = w\<lparr>trace := trace w @ [ev]\<rparr>"

definition print :: "string \<Rightarrow> world \<Rightarrow> world" where
  "print s w = emit (Print s) w"

text \<open>The programs a trace shows as run, and the paths it shows as unlinked, in order.\<close>

fun ran :: "event list \<Rightarrow> (string list \<times> int) list" where
  "ran [] = []"
| "ran (Ran argv rc # evs) = (argv, rc) # ran evs"
| "ran (ev # evs) = ran evs"

fun unlinked :: "event list \<Rightarrow> string list" where
  "unlinked [] = []"
| "unlinked (Unlink p # evs) = p # unlinked evs"
| "unlinked (ev # evs) = unlinked evs"

definition path_exists :: "filesystem \<Rightarrow> string \<Rightarrow> bool" where
  "path_exists f p = (map_of f p \<noteq> None)"

text \<open>\<open>under d p\<close>: the path \<open>p\<close> lies below the directory \<open>d\<close>.\<close>

definition under :: "string \<Rightarrow> string \<Rightarrow> bool" where
  "under d p = startswith p (d @ ''/'')"

text \<open>What lies below a directory, in listing order.\<close>

definition below :: "filesystem \<Rightarrow> string \<Rightarrow> string list" where
  "below f d = filter (under d) (map fst f)"

text \<open>
  The directory a path lies in: the text before its last \<open>/\<close>, empty for a bare name
  (then the directory is the current one, which exists).
\<close>

definition parent_of :: "string \<Rightarrow> string" where
  "parent_of p = rev (drop 1 (dropWhile (\<lambda>c. c \<noteq> CHR ''/'') (rev p)))"

definition parent_check :: "filesystem \<Rightarrow> string \<Rightarrow> exc option" where
  "parent_check f p =
     (if parent_of p = [] then None
      else case map_of f (parent_of p) of
             None \<Rightarrow> Some (Exc FileNotFoundError p)
           | Some (RegularFile _) \<Rightarrow> Some (Exc NotADirectoryError p)
           | Some Directory \<Rightarrow> None)"

text \<open>\<open>os.remove(p)\<close>.\<close>

definition os_remove :: "string \<Rightarrow> world \<Rightarrow> outcome \<times> world" where
  "os_remove p w =
     (case map_of (fs w) p of
        None \<Rightarrow> (Raise (Exc FileNotFoundError p), w)
      | Some Directory \<Rightarrow> (Raise (Exc IsADirectoryError p), w)
      | Some (RegularFile _) \<Rightarrow>
          (Done, emit (Unlink p) (w\<lparr>fs := filter (\<lambda>(q, _). q \<noteq> p) (fs w)\<rparr>)))"

text \<open>What is left of a file system without a directory and everything below it.\<close>

definition kept :: "string \<Rightarrow> filesystem \<Rightarrow> filesystem" where
  "kept d f = filter (\<lambda>(q, _). q \<noteq> d \<and> \<not> under d q) f"

text \<open>\<open>shutil.rmtree(p)\<close>: the directory and everything below it.\<close>

definition shutil_rmtree :: "string \<Rightarrow> world \<Rightarrow> outcome \<times> world" where
  "shutil_rmtree p w =
     (case map_of (fs w) p of
        None \<Rightarrow> (Raise (Exc FileNotFoundError p), w)
      | Some (RegularFile _) \<Rightarrow> (Raise (Exc NotADirectoryError p), w)
      | Some Directory \<Rightarrow> (Done, emit (Rmtree p) (w\<lparr>fs := kept p (fs w)\<rparr>)))"

text \<open>\<open>Path(p).mkdir()\<close>, without \<open>parents\<close> and without \<open>exist_ok\<close>.\<close>

definition path_mkdir :: "string \<Rightarrow> world \<Rightarrow> outcome \<times> world" where
  "path_mkdir p w =
     (if path_exists (fs w) p then (Raise (Exc FileExistsError p), w)
      else case parent_check (fs w) p of
             Some ex \<Rightarrow> (Raise ex, w)
           | None \<Rightarrow> (Done, emit (Mkdir p) (w\<lparr>fs := fs w @ [(p, Directory)]\<rparr>)))"

text \<open>
  Storing a file under a path: replaced in place when the path exists, added at the end
  of the listing otherwise.
\<close>

definition put_file :: "filesystem \<Rightarrow> string \<Rightarrow> string \<Rightarrow> filesystem" where
  "put_file f p content =
     (if path_exists f p
      then map (\<lambda>(q, x). if q = p then (q, RegularFile content) else (q, x)) f
      else f @ [(p, RegularFile content)])"

text \<open>\<open>open(p, "w+")\<close> followed by writing the whole content.\<close>

definition write_file :: "filesystem \<Rightarrow> string \<Rightarrow> string \<Rightarrow> exc + filesystem" where
  "write_file f p content =
     (case map_of f p of
        Some Directory \<Rightarrow> Inl (Exc IsADirectoryError p)
      | Some (RegularFile _) \<Rightarrow> Inr (put_file f p content)
      | None \<Rightarrow>
          (case parent_check f p of
             Some ex \<Rightarrow> Inl ex
           | None \<Rightarrow> Inr (put_file f p content)))"

text \<open>\<open>Path(p).read_text()\<close>.\<close>

definition read_text :: "filesystem \<Rightarrow> string \<Rightarrow> exc + string" where
  "read_text f p =
     (case map_of f p of
        None \<Rightarrow> Inl (Exc FileNotFoundError p)
      | Some Directory \<Rightarrow> Inl (Exc IsADirectoryError p)
      | Some (RegularFile content) \<Rightarrow> Inr content)"



text \<open>
  The project descriptor \<open>pixi.toml\<close> as loaded at import, with the keys the helper
  reads, all present and all strings; \<open>dependencies\<close> keeps the order of the mapping.
  A descriptor that lacks one of the keys makes the subscript raise \<open>KeyError\<close>; this
  typed view leaves such descriptors out.
\<close>

record project_config =
  package_name :: string
  package_version :: string
  workspace_license_file :: string
  workspace_homepage :: string
  workspace_license :: string
  workspace_description :: string
  workspace_repository :: string
  dependencies :: "(string \<times> string) list"

text \<open>The recipe document, one field per key of the nested dictionary.\<close>

record recipe =
  context_version :: string
  recipe_package_name :: string
  recipe_package_version :: string
  source_paths :: "string list"
  build_script :: "string list"
  requirements_run :: "string list"
  about_homepage :: string
  about_license :: string
  about_license_file :: string
  about_summary :: string
  about_description :: string
  about_repository :: string

text \<open>
  The environment of the packaging helper: the module constants computed at import
  (\<open>TEMP_DIR\<close>, \<open>CONDA_BUILD_PATH\<close>, \<open>PROJECT_CONFIG\<close>), the serialiser \<open>yaml.dump\<close>, and
  \<open>tool_output\<close>, the bytes a program started with an argument vector writes to the file
  its \<open>-o\<close> option names.
\<close>

record util_env = env +
  TEMP_DIR :: string
  CONDA_BUILD_PATH :: string
  PROJECT_CONFIG :: project_config
  yaml_dump :: "recipe \<Rightarrow> string"
  tool_output :: "string list \<Rightarrow> string"

definition RECIPE_PATH :: string where
  "RECIPE_PATH = ''recipe.yaml''"

text \<open>
  Modelled from the spec: what the external programs, which are not part of the
  repository, do to the local files. \<open>mojo package <src> -o <out>\<close> that exits with 0 has
  written the artifact \<open>out\<close>; the other programs (\<open>pixi upload\<close>, \<open>pixi build\<close>,
  \<open>pixi run test\<close>) leave the paths the helper manages alone.
\<close>

definition tool_effect :: "util_env \<Rightarrow> string list \<Rightarrow> int \<Rightarrow> filesystem \<Rightarrow> filesystem" where
  "tool_effect e argv rc f =
     (if rc = 0 \<and> length argv = 5 \<and> take 2 argv = [''mojo'', ''package'']
         \<and> argv ! 3 = ''-o''
      then put_file f (argv ! 4) (tool_output e argv)
      else f)"

text \<open>
  \<open>subprocess.run(argv, check=True)\<close>: an exception of \<open>subprocess.run\<close> itself is
  passed on; a process that ran is recorded, and a non-zero exit code raises
  \<open>CalledProcessError\<close>.
\<close>

definition run_checked :: "util_env \<Rightarrow> string list \<Rightarrow> world \<Rightarrow> outcome \<times> world" where
  "run_checked e argv w =
     (case subprocess_run e argv of
        Failed ex \<Rightarrow> (Raise ex, w)
      | Completed rc out err \<Rightarrow>
          (let w' = emit (Ran argv rc) (w\<lparr>fs := tool_effect e argv rc (fs w)\<rparr>)
           in if rc \<noteq> 0
              then (Raise (Exc CalledProcessError ''Command returned non-zero exit status''), w')
              else (Done, w')))"

section \<open>scripts/util.py: the recipe generator\<close>

text \<open>The loop of lines 78 and 79: the first specifier that raises ends it.\<close>

fun format_all :: "(string \<times> string) list \<Rightarrow> exc + string list" where
  "format_all [] = Inr []"
| "format_all ((dependency, version) # rest) =
     (case format_dependency dependency version of
        Inl ex \<Rightarrow> Inl ex
      | Inr l \<Rightarrow>
          (case format_all rest of
             Inl ex \<Rightarrow> Inl ex
           | Inr ls \<Rightarrow> Inr (l # ls)))"

text \<open>The dictionary \<open>recipe\<close> as it stands at line 89, before it is written.\<close>

definition recipe_document :: "util_env \<Rightarrow> filesystem \<Rightarrow> exc + recipe" where
  "recipe_document e f =
     (let package_name = ''zlib''; cfg = PROJECT_CONFIG e in
      case format_all (dependencies cfg) of
        Inl ex \<Rightarrow> Inl ex
      | Inr run \<Rightarrow>
          (case read_text f ''README.md'' of
             Inl ex \<Rightarrow> Inl ex
           | Inr readme \<Rightarrow>
               Inr \<lparr>context_version = ''13.4.2'',
                    recipe_package_name = project_config.package_name cfg,
                    recipe_package_version = package_version cfg,
                    source_paths = [''src'', workspace_license_file cfg],
                    build_script =
                      [''mkdir -p ${PREFIX}/lib/mojo'',
                       ''pixi run mojo package '' @ package_name
                         @ '' -o ${PREFIX}/lib/mojo/'' @ package_name @ ''.mojopkg''],
                    requirements_run = run,
                    about_homepage = workspace_homepage cfg,
                    about_license = workspace_license cfg,
                    about_license_file = workspace_license_file cfg,
                    about_summary = workspace_description cfg,
                    about_description = readme,
                    about_repository = workspace_repository cfg\<rparr>))"

text \<open>\<open>generate_recipe()\<close>, lines 45 to 91.\<close>

definition generate_recipe :: "util_env \<Rightarrow> world \<Rightarrow> outcome \<times> world" where
  "generate_recipe e w =
     (case recipe_document e (fs w) of
        Inl ex \<Rightarrow> (Raise ex, w)
      | Inr r \<Rightarrow>
          (case write_file (fs w) ''recipe.yaml'' (yaml_dump e r) of
             Inl ex \<Rightarrow> (Raise ex, w)
           | Inr f' \<Rightarrow>
               (Done, emit (Wrote ''recipe.yaml'' (yaml_dump e r)) (w\<lparr>fs := f'\<rparr>))))"

section \<open>scripts/util.py: publish, staging directory, build\<close>

definition upload_argv :: "string \<Rightarrow> string \<Rightarrow> string list" where
  "upload_argv channel file =
     [''pixi'', ''upload'', ''https://prefix.dev/api/v1/upload/'' @ channel, file]"





text \<open>\<open>remove_temp_directory()\<close>, lines 110 to 114.\<close>

definition remove_temp_directory :: "util_env \<Rightarrow> world \<Rightarrow> outcome \<times> world" where
  "remove_temp_directory e w =
     (if path_exists (fs w) (TEMP_DIR e)
      then shutil_rmtree (TEMP_DIR e) (print ''Removing temp directory.'' w)
      else (Done, w))"

text \<open>The path \<open>f"{TEMP_DIR}/{package}.mojopkg"\<close> of line 123.\<close>

definition artifact :: "util_env \<Rightarrow> string" where
  "artifact e = TEMP_DIR e @ ''/'' @ package_name (PROJECT_CONFIG e) @ ''.mojopkg''"

definition package_argv :: "util_env \<Rightarrow> string list" where
  "package_argv e =
     (let package = project_config.package_name (PROJECT_CONFIG e)
      in [''mojo'', ''package'', ''src/'' @ package, ''-o'', artifact e])"

text \<open>\<open>prepare_temp_directory()\<close>, lines 117 to 125.\<close>

definition prepare_temp_directory :: "util_env \<Rightarrow> world \<Rightarrow> outcome \<times> world" where
  "prepare_temp_directory e w =
     (case remove_temp_directory e w of
        (Raise ex, w1) \<Rightarrow> (Raise ex, w1)
      | (Done, w1) \<Rightarrow>
          (case path_mkdir (TEMP_DIR e) w1 of
             (Raise ex, w2) \<Rightarrow> (Raise ex, w2)
           | (Done, w2) \<Rightarrow> run_checked e (package_argv e) w2))"

definition build_argv :: "util_env \<Rightarrow> string list" where
  "build_argv e = [''pixi'', ''build'', ''-o'', CONDA_BUILD_PATH e]"

text \<open>\<open>build_conda_package()\<close>, lines 129 to 139.\<close>

definition build_conda_package :: "util_env \<Rightarrow> world \<Rightarrow> outcome \<times> world" where
  "build_conda_package e w =
     (case (if \<not> path_exists (fs w) RECIPE_PATH then generate_recipe e w else (Done, w)) of
        (Raise ex, w1) \<Rightarrow> (Raise ex, w1)
      | (Done, w1) \<Rightarrow>
          (case run_checked e (build_argv e) w1 of
             (Raise ex, w2) \<Rightarrow> (Raise ex, w2)
           | (Done, w2) \<Rightarrow> os_remove ''recipe.yaml'' w2))"

subsection \<open>A concrete project and machine\<close>

definition example_config :: project_config where
  "example_config =
     \<lparr>package_name = ''mojo-zlib'', package_version = ''0.1.0'',
      workspace_license_file = ''LICENSE'', workspace_homepage = ''https://example.org'',
      workspace_license = ''MIT'', workspace_description = ''zlib for Mojo'',
      workspace_repository = ''https://example.org/repo'',
      dependencies = [(''max'', ''>=25.4''), (''zlib'', ''<2''), (''python'', ''3.12.*'')]\<rparr>"

text \<open>
  Every program can be started; the upload of \<open>b.conda\<close> and the build exit with 1 on
  the machine \<open>failing_machine\<close>, and \<open>pixi\<close> is missing on \<open>bare_machine\<close>.
\<close>

definition example_machine :: util_env where
  "example_machine =
     \<lparr>subprocess_run =
        (\<lambda>argv. if argv = upload_argv ''chan'' ''/out/b.conda'' then Completed 1 [] []
                 else Completed 0 [] []),
      TEMP_DIR = ''/home/u/tmp'', CONDA_BUILD_PATH = ''/out'',
      PROJECT_CONFIG = example_config,
      yaml_dump = (\<lambda>r. concat (requirements_run r)),
      tool_output = (\<lambda>argv. ''PKG'')\<rparr>"

definition failing_machine :: util_env where
  "failing_machine = example_machine\<lparr>subprocess_run := (\<lambda>argv. Completed 1 [] [])\<rparr>"


definition example_world :: world where
  "example_world =
     \<lparr>fs = [(''/home/u'', Directory),
            (''/home/u/tmp'', Directory),
            (''/home/u/tmp/old.bin'', RegularFile ''x''),
            (''/out'', Directory),
            (''/out/a.conda'', RegularFile ''A''),
            (''/out/.hidden.conda'', RegularFile ''H''),
            (''/out/b.conda'', RegularFile ''B''),
            (''/out/c.conda'', RegularFile ''C''),
            (''/out/notes.txt'', RegularFile ''N''),
            (''README.md'', RegularFile ''Read me'')],
      trace = []\<rparr>"

definition world_with_recipe :: world where
  "world_with_recipe =
     \<lparr>fs = [(''README.md'', RegularFile ''Read me''), (''recipe.yaml'', RegularFile ''mine'')],
      trace = []\<rparr>"

section \<open>Properties of the dependency constraint formatter\<close>

lemma format_dependency_default:
  assumes "version = c # rest" and "c \<noteq> CHR ''<''" and "c \<noteq> CHR ''>''"
  shows "format_dependency name version = Inr (name @ '' == '' @ version)"
  using assms by (simp add: format_dependency_def getitem_def)

lemma format_dependency_strict:
  assumes "version = c # d # rest" and "c = CHR ''<'' \<or> c = CHR ''>''" and "d \<noteq> CHR ''=''"
  shows "format_dependency name version = Inr (name @ '' '' @ [c] @ '' '' @ d # rest)"
  using assms by (auto simp add: format_dependency_def getitem_def)

lemma format_dependency_inclusive:
  assumes "version = c # CHR ''='' # rest" and "c = CHR ''<'' \<or> c = CHR ''>''"
  shows "format_dependency name version = Inr (name @ '' '' @ [c, CHR ''=''] @ '' '' @ rest)"
  using assms by (auto simp add: format_dependency_def getitem_def)

lemma first_token:
  assumes "CHR '' '' \<notin> set n"
  shows "takeWhile (\<lambda>c. c \<noteq> CHR '' '') (n @ CHR '' '' # rest) = n"
  using assms by (induction n) auto

text \<open>
  Claim C1. For a name \<open>n\<close> without a blank and a specifier \<open>s\<close> of length at least 1,
  and at least 2 when it starts with \<open><\<close> or \<open>>\<close>, \<open>format_dependency(n, s)\<close> returns
  \<open>n op v\<close>: with a leading \<open><\<close> or \<open>>\<close> followed by \<open>=\<close>, \<open>op = s[0:2]\<close> and
  \<open>v = s[2:]\<close>; with a leading \<open><\<close> or \<open>>\<close> not followed by \<open>=\<close>, \<open>op = s[0]\<close> and
  \<open>v = s[1:]\<close>; otherwise \<open>op\<close> is \<open>==\<close> and \<open>v = s\<close>. So the first blank-separated token
  of the result is \<open>n\<close>, the second is one of \<open>==\<close>, \<open><\<close>, \<open>>\<close>, \<open><=\<close>, \<open>>=\<close>, and the
  rest is \<open>s\<close> without the detected operator.
\<close>

theorem format_dependency_spec:
  assumes name: "CHR '' '' \<notin> set n"
      and nonempty: "1 \<le> length s"
      and long: "s ! 0 \<in> {CHR ''<'', CHR ''>''} \<longrightarrow> 2 \<le> length s"
  shows "let detected = (s ! 0 \<in> {CHR ''<'', CHR ''>''});
             op = (if detected then (if s ! 1 = CHR ''='' then take 2 s else take 1 s)
                   else ''=='');
             v = (if detected then (if s ! 1 = CHR ''='' then drop 2 s else drop 1 s)
                  else s);
             r = n @ '' '' @ op @ '' '' @ v
         in format_dependency n s = Inr r
            \<and> op \<in> {''=='', ''<'', ''>'', ''<='', ''>=''}
            \<and> (if detected then op @ v = s else v = s)
            \<and> takeWhile (\<lambda>c. c \<noteq> CHR '' '') r = n
            \<and> takeWhile (\<lambda>c. c \<noteq> CHR '' '') (drop (length n + 1) r) = op
            \<and> drop (length n + 1 + length op + 1) r = v"
proof -
  from nonempty obtain c rest where s: "s = c # rest" by (cases s) auto
  show ?thesis
  proof (cases "c = CHR ''<'' \<or> c = CHR ''>''")
    case False
    then have "format_dependency n s = Inr (n @ '' == '' @ s)"
      using s by (intro format_dependency_default) auto
    then show ?thesis using False s name by (simp add: Let_def first_token)
  next
    case angle: True
    with long s obtain d rest' where r: "rest = d # rest'" by (cases rest) auto
    show ?thesis
    proof (cases "d = CHR ''=''")
      case True
      have "format_dependency n s = Inr (n @ '' '' @ [c, CHR ''=''] @ '' '' @ rest')"
        using s r True angle by (intro format_dependency_inclusive) auto
      then show ?thesis using True s r name angle
        by (auto simp add: Let_def first_token)
    next
      case False
      have "format_dependency n s = Inr (n @ '' '' @ [c] @ '' '' @ d # rest')"
        using s r False angle by (intro format_dependency_strict) auto
      then show ?thesis using False s r name angle
        by (auto simp add: Let_def first_token)
    qed
  qed
qed

theorem format_dependency_spec_witness:
  "CHR '' '' \<notin> set ''zlib'' \<and> 1 \<le> length ''>=1.2.3''
   \<and> ''>=1.2.3'' ! 0 \<in> {CHR ''<'', CHR ''>''} \<and> 2 \<le> length ''>=1.2.3''
   \<and> format_dependency ''zlib'' ''>=1.2.3'' = Inr ''zlib >= 1.2.3''
   \<and> takeWhile (\<lambda>c. c \<noteq> CHR '' '') ''zlib >= 1.2.3'' = ''zlib''"
  using format_dependency_spec [of "''zlib''" "''>=1.2.3''"] by (simp add: Let_def)

section \<open>Properties of test discovery\<close>

lemma collect_simps [simp]:
  "collect [] = []"
  "collect ((rt, ds, files) # rest) =
     map (os_path_join rt) (filter (\<lambda>file. endswith file ''.mojo'') files) @ collect rest"
  "collect (xs @ ys) = collect xs @ collect ys"
  by (simp_all add: collect_def)

lemma filenames_simps [simp]:
  "filenames [] = []"
  "filenames ((name, File) # es) = name # filenames es"
  "filenames ((name, Dir sub) # es) = filenames es"
  "filenames (xs @ ys) = filenames xs @ filenames ys"
  by (simp_all add: filenames_def)

lemma walk_into_append [simp]:
  "walk_into d (xs @ ys) = walk_into d xs @ walk_into d ys"
proof (induction xs)
  case Nil
  show ?case by simp
next
  case (Cons a xs)
  obtain name t where a: "a = (name, t)" by (cases a)
  show ?case using Cons a by (cases t) auto
qed

lemma file_at_File [simp]: "\<not> file_at d File name p"
  by (auto elim: file_at.cases)

lemma file_at_Dir:
  "file_at d (Dir entries) name p \<longleftrightarrow>
     ((name, File) \<in> set entries \<and> p = os_path_join d name)
     \<or> (\<exists>sub t. (sub, t) \<in> set entries \<and> file_at (os_path_join d sub) t name p)"
  by (auto elim: file_at.cases intro: file_at.intros)

lemma set_filenames: "set (filenames es) = {name. (name, File) \<in> set es}"
  by (force simp add: filenames_def)

text \<open>What the walk collects is what the tree holds: by the recursion of \<open>os_walk\<close>.\<close>

lemma walk_paths:
  "set (collect (os_walk d t)) = {p. \<exists>name. file_at d t name p \<and> endswith name ''.mojo''}"
  "set (collect (walk_into d es)) =
     {p. \<exists>name sub t. (sub, t) \<in> set es \<and> file_at (os_path_join d sub) t name p
                      \<and> endswith name ''.mojo''}"
proof (induction d t and d es rule: os_walk_walk_into.induct)
  case (1 d)
  show ?case by simp
next
  case (2 d entries)
  show ?case
    unfolding os_walk.simps collect_simps set_append "2.IH"
    by (subst file_at_Dir) (auto simp add: set_filenames)
next
  case (3 d)
  show ?case by simp
next
  case (4 d name entries)
  show ?case unfolding walk_into.simps "4.IH" by auto
next
  case (5 d name sub entries)
  show ?case unfolding walk_into.simps collect_simps set_append "5.IH" by auto
qed

lemma walk_into_Cons:
  "NO_MATCH [] es \<Longrightarrow> walk_into d (a # es) = walk_into d [a] @ walk_into d es"
  using walk_into_append [of d "[a]" es] by simp

lemma filenames_Cons:
  "NO_MATCH [] es \<Longrightarrow> filenames (a # es) = filenames [a] @ filenames es"
  using filenames_simps(4) [of "[a]" es] by simp

text \<open>
  Another listing order changes the order in which paths are collected, not the paths:
  by induction on the derivation of \<open>relisted\<close>, for every starting directory.
\<close>

lemma relisted_walk:
  assumes "relisted t t'"
  shows "(t = File \<longleftrightarrow> t' = File)
         \<and> (\<forall>d. mset (collect (os_walk d t)) = mset (collect (os_walk d t')))"
  using assms
proof (induction rule: relisted.induct)
  case (same t)
  show ?case by simp
next
  case (swap xs a b ys)
  have "mset (collect (os_walk d (Dir (xs @ a # b # ys)))) =
        mset (collect (os_walk d (Dir (xs @ b # a # ys))))" for d
    by (simp add: walk_into_Cons filenames_Cons)
  then show ?case by simp
next
  case (inside t t' xs name ys)
  have one: "filenames [(name, t)] = filenames [(name, t')]"
    using inside.IH by (cases t; cases t') auto
  have two: "mset (collect (walk_into d [(name, t)])) = mset (collect (walk_into d [(name, t')]))"
    for d
    using inside.IH by (cases t; cases t') (auto simp del: os_walk.simps)
  have "mset (collect (os_walk d (Dir (xs @ (name, t) # ys)))) =
        mset (collect (os_walk d (Dir (xs @ (name, t') # ys))))" for d
    using one two [of d]
    by (simp add: walk_into_Cons filenames_Cons del: walk_into.simps filenames_simps(1,2,3))
  then show ?case by simp
next
  case (chain t t' t'')
  then show ?case by simp
qed

lemma example_collect:
  "collect (walk example_env ''tests'') = [''tests/b.mojo'', ''tests/a.mojo'', ''tests/sub/a.mojo'']"
  by (simp add: walk_def example_env_def example_tree_def dirnames_def
        os_path_join_def startswith_def endswith_def)

lemma example_sorted:
  "sort [''tests/b.mojo'', ''tests/a.mojo'', ''tests/sub/a.mojo'']
     = [''tests/a.mojo'', ''tests/b.mojo'', ''tests/sub/a.mojo'']"
  by code_simp

lemma example_find:
  "find_mojo_test_files example_env ''tests''
     = [''tests/a.mojo'', ''tests/b.mojo'', ''tests/sub/a.mojo'']"
  by (simp only: find_mojo_test_files_def Let_def example_collect example_sorted)

lemma empty_find: "find_mojo_test_files empty_env ''tests'' = []"
  by (simp add: find_mojo_test_files_def walk_def empty_env_def)

text \<open>
  Claim C6. For every directory tree, \<open>find_mojo_test_files\<close> returns exactly the paths of
  the files whose names end in \<open>.mojo\<close> (nothing when the directory is missing), in
  sorted order; and discovery on the same tree gives the same ordered list, whatever
  order the directories are listed in.
\<close>

theorem find_mojo_test_files_spec:
  "(resolve e d = None \<longrightarrow> find_mojo_test_files e d = [])
   \<and> (\<forall>t. resolve e d = Some t \<longrightarrow>
         set (find_mojo_test_files e d) =
           {p. \<exists>name. file_at d t name p \<and> endswith name ''.mojo''})
   \<and> sorted (find_mojo_test_files e d)
   \<and> (\<forall>(e'::test_env) t t'. resolve e d = Some t \<and> resolve e' d = Some t' \<and> relisted t t'
         \<longrightarrow> find_mojo_test_files e' d = find_mojo_test_files e d)"
proof (intro conjI allI impI)
  assume "resolve e d = None"
  then show "find_mojo_test_files e d = []"
    by (simp add: find_mojo_test_files_def walk_def)
next
  fix t assume "resolve e d = Some t"
  then show "set (find_mojo_test_files e d) =
      {p. \<exists>name. file_at d t name p \<and> endswith name ''.mojo''}"
    by (simp add: find_mojo_test_files_def walk_def walk_paths(1))
next
  show "sorted (find_mojo_test_files e d)"
    by (simp add: find_mojo_test_files_def)
next
  fix e' :: test_env and t t'
  assume h: "resolve e d = Some t \<and> resolve e' d = Some t' \<and> relisted t t'"
  then have "mset (collect (os_walk d t)) = mset (collect (os_walk d t'))"
    using relisted_walk by blast
  then have "mset (collect (walk e d)) = mset (collect (walk e' d))"
    using h by (simp add: walk_def)
  then have "sort (collect (walk e' d)) = sort (collect (walk e d))"
    by (intro properties_for_sort) simp_all
  then show "find_mojo_test_files e' d = find_mojo_test_files e d"
    by (simp add: find_mojo_test_files_def)
qed

theorem find_mojo_test_files_spec_witness:
  "resolve empty_env ''tests'' = None
   \<and> find_mojo_test_files empty_env ''tests'' = []
   \<and> resolve example_env ''tests'' = Some example_tree
   \<and> set (find_mojo_test_files example_env ''tests'') =
        {p. \<exists>name. file_at ''tests'' example_tree name p \<and> endswith name ''.mojo''}
   \<and> find_mojo_test_files example_env ''tests'' =
        [''tests/a.mojo'', ''tests/b.mojo'', ''tests/sub/a.mojo'']
   \<and> resolve relisted_env ''tests'' = Some example_tree_relisted
   \<and> relisted example_tree example_tree_relisted
   \<and> find_mojo_test_files relisted_env ''tests'' = find_mojo_test_files example_env ''tests''"
proof -
  have none: "resolve empty_env ''tests'' = None"
    by (simp add: empty_env_def)
  have some: "resolve example_env ''tests'' = Some example_tree"
    by (simp add: example_env_def)
  have some': "resolve relisted_env ''tests'' = Some example_tree_relisted"
    by (simp add: relisted_env_def)
  have rel: "relisted example_tree example_tree_relisted"
    unfolding example_tree_def example_tree_relisted_def
    using relisted.swap [of "[]" _ _ "[(''a.mojo'', File)]"] by simp
  show ?thesis
    using find_mojo_test_files_spec [of empty_env "''tests''"]
      find_mojo_test_files_spec [of example_env "''tests''"]
      none some some' rel example_find
    by blast
qed

section \<open>Properties of the test runner\<close>

lemma run_test_result:
  "fst (run_test e f r) =
     (case subprocess_run e [''pixi'', ''run'', ''test'', f] of
        Completed rc out err \<Rightarrow> (rc = 0, clock e (Suc (ticks r)) - clock e (ticks r), out, err)
      | Failed ex \<Rightarrow> (False, clock e (Suc (ticks r)) - clock e (ticks r), [], message ex))"
  by (simp add: run_test_def time_time_def Let_def split: proc.splits)

lemma run_test_success:
  "fst (fst (run_test e f r)) = fst (fst (run_test e f start))"
  by (simp add: run_test_result split: proc.splits)

lemma example_outcomes:
  "subprocess_run example_env [''pixi'', ''run'', ''test'', ''tests/a.mojo'']
     = Failed (Exc FileNotFoundError ''pixi: not found'')"
  "subprocess_run example_env [''pixi'', ''run'', ''test'', ''tests/b.mojo'']
     = Completed 2 ''out'' ''boom''"
  "subprocess_run example_env [''pixi'', ''run'', ''test'', ''tests/sub/a.mojo'']
     = Completed 0 ''ok'' []"
  by (simp_all add: example_env_def example_run_def)

text \<open>
  Claim C7. If invoking the test command raises, \<open>run_test\<close> returns a failure: success
  flag false, empty captured output, the exception's message as error output. Otherwise
  the file passes exactly when the exit code is zero. \<open>run_test\<close> always returns its
  tuple: it never raises.
\<close>

theorem run_test_spec:
  "(\<forall>ex. subprocess_run e [''pixi'', ''run'', ''test'', f] = Failed ex \<longrightarrow>
       (\<exists>duration. fst (run_test e f r) = (False, duration, [], message ex)))
   \<and> (\<forall>rc out err. subprocess_run e [''pixi'', ''run'', ''test'', f] = Completed rc out err \<longrightarrow>
         fst (run_test e f r) = (rc = 0, clock e (Suc (ticks r)) - clock e (ticks r), out, err))
   \<and> (\<exists>success duration out err r'. run_test e f r = ((success, duration, out, err), r'))"
proof (intro conjI)
  show "\<forall>ex. subprocess_run e [''pixi'', ''run'', ''test'', f] = Failed ex \<longrightarrow>
       (\<exists>duration. fst (run_test e f r) = (False, duration, [], message ex))"
    by (simp add: run_test_result)
  show "\<forall>rc out err. subprocess_run e [''pixi'', ''run'', ''test'', f] = Completed rc out err \<longrightarrow>
         fst (run_test e f r) = (rc = 0, clock e (Suc (ticks r)) - clock e (ticks r), out, err)"
    by (simp add: run_test_result)
  obtain res r' where "run_test e f r = (res, r')" by (cases "run_test e f r")
  moreover obtain success duration out err where "res = (success, duration, out, err)"
    by (cases res)
  ultimately show "\<exists>success duration out err r'. run_test e f r = ((success, duration, out, err), r')"
    by blast
qed

theorem run_test_spec_witness:
  "subprocess_run example_env [''pixi'', ''run'', ''test'', ''tests/a.mojo'']
     = Failed (Exc FileNotFoundError ''pixi: not found'')
   \<and> (\<exists>duration. fst (run_test example_env ''tests/a.mojo'' start)
         = (False, duration, [], ''pixi: not found''))
   \<and> subprocess_run example_env [''pixi'', ''run'', ''test'', ''tests/b.mojo'']
     = Completed 2 ''out'' ''boom''
   \<and> fst (fst (run_test example_env ''tests/b.mojo'' start)) = False
   \<and> subprocess_run example_env [''pixi'', ''run'', ''test'', ''tests/sub/a.mojo'']
     = Completed 0 ''ok'' []
   \<and> fst (fst (run_test example_env ''tests/sub/a.mojo'' start)) = True"
  using run_test_spec [of example_env "''tests/a.mojo''" start]
    run_test_spec [of example_env "''tests/b.mojo''" start]
    run_test_spec [of example_env "''tests/sub/a.mojo''" start] example_outcomes
  by simp

text \<open>The counters of the loop: by induction on the files still to run.\<close>

lemma run_all_counts:
  "\<exists>r'. run_all e n ifs (p, q, r) =
     (p + length (filter (\<lambda>f. \<not> fails e f) (map snd ifs)),
      q + length (filter (fails e) (map snd ifs)), r')"
proof (induction ifs arbitrary: p q r)
  case Nil
  show ?case by simp
next
  case (Cons a ifs)
  obtain i f where a: "a = (i, f)" by (cases a)
  obtain res r2 where rt: "run_test e f (print_line (Running i n f) r) = (res, r2)"
    by (cases "run_test e f (print_line (Running i n f) r)")
  obtain success duration out err where res: "res = (success, duration, out, err)"
    by (cases res)
  have s: "success = (\<not> fails e f)"
    using run_test_success [of e f "print_line (Running i n f) r"] rt res
    by (simp add: fails_def)
  show ?case
  proof (cases success)
    case True
    with Cons [of "p + 1" q "print_line (PassedIn duration) r2"] a rt res s
    show ?thesis by (auto simp add: Let_def)
  next
    case False
    with Cons [of p "q + 1"] a rt res s
    show ?thesis by (auto simp add: Let_def)
  qed
qed

lemma main_empty:
  assumes "find_mojo_test_files e ''tests'' = []"
  shows "main e = (Returned, \<lparr>ticks = 0, printed = [NoFilesNotice], invoked = []\<rparr>)"
  using assms by (simp add: main_def Let_def print_line_def start_def)

lemma main_nonempty:
  assumes "find_mojo_test_files e ''tests'' \<noteq> []"
  shows "\<exists>r t a. main e = ((if 0 < length (failed_files e) then SystemExit 1 else Returned), r)
           \<and> FailedCount (length (failed_files e)) \<in> set (printed r)
           \<and> TotalRuntime t \<in> set (printed r) \<and> AveragePerFile a \<in> set (printed r)"
proof -
  let ?fs = "find_mojo_test_files e ''tests''"
  let ?ifs = "zip [1 ..< Suc (length ?fs)] ?fs"
  have m: "map snd ?ifs = ?fs" by (intro map_snd_zip) (simp del: upt_Suc)
  let ?r2 = "snd (time_time e (print_line Separator (print_line (Found (length ?fs)) start)))"
  from run_all_counts [of e "length ?fs" ?ifs 0 0 ?r2]
  obtain r3 where "run_all e (length ?fs) ?ifs (0, 0, ?r2) =
      (0 + length (filter (\<lambda>f. \<not> fails e f) (map snd ?ifs)),
       0 + length (filter (fails e) (map snd ?ifs)), r3)"
    by blast
  then have ra: "run_all e (length ?fs) ?ifs (0, 0, ?r2) =
      (length (filter (\<lambda>f. \<not> fails e f) ?fs), length (filter (fails e) ?fs), r3)"
    by (simp only: m add_0)
  have len: "length ?fs \<noteq> 0" using assms by simp
  show ?thesis
    using assms ra len
    by (auto simp add: main_def Let_def truediv_def failed_files_def print_line_def
          split_beta time_time_def simp del: upt_Suc)
qed

lemma example_failed: "failed_files example_env = [''tests/a.mojo'', ''tests/b.mojo'']"
  by (simp add: failed_files_def example_find fails_def run_test_result example_outcomes)

lemma empty_failed: "failed_files empty_env = []"
  by (simp add: failed_files_def empty_find)

text \<open>
  Claim C2. The exit status of the test runner is 0 exactly when no test file failed
  (which covers the run that discovers no file), and 1 exactly when at least one failed.
  The count is the one the script keeps in \<open>failed\<close> and prints in its summary.
\<close>

theorem main_exit_status:
  "(exit_status (fst (main e)) = 0 \<longleftrightarrow> length (failed_files e) = 0)
   \<and> (exit_status (fst (main e)) = 1 \<longleftrightarrow> 0 < length (failed_files e))
   \<and> (find_mojo_test_files e ''tests'' = []
        \<or> FailedCount (length (failed_files e)) \<in> set (printed (snd (main e))))"
proof (cases "find_mojo_test_files e ''tests'' = []")
  case True
  then show ?thesis using main_empty [OF True] by (simp add: failed_files_def)
next
  case False
  from main_nonempty [OF False] show ?thesis using False by (auto split: if_splits)
qed

theorem main_exit_status_witness:
  "length (failed_files example_env) = 2 \<and> exit_status (fst (main example_env)) = 1
   \<and> length (failed_files empty_env) = 0 \<and> exit_status (fst (main empty_env)) = 0"
  using main_exit_status [of example_env] main_exit_status [of empty_env]
  by (simp add: example_failed empty_failed)

text \<open>
  Claim C8. When no test file is discovered, \<open>main\<close> prints the notice and returns: no
  test is run, the clock is not read, no summary is printed. No run ends in an uncaught
  exception, so the average is never taken over zero files; and a run that reaches the
  summary (it prints the total runtime, then divides) has discovered at least one file.
\<close>

theorem main_zero_files:
  "(find_mojo_test_files e ''tests'' = [] \<longrightarrow>
      main e = (Returned, \<lparr>ticks = 0, printed = [NoFilesNotice], invoked = []\<rparr>))
   \<and> (\<forall>ex. fst (main e) \<noteq> Uncaught ex)
   \<and> ((\<exists>t. TotalRuntime t \<in> set (printed (snd (main e)))) \<longrightarrow>
         1 \<le> length (find_mojo_test_files e ''tests''))
   \<and> ((\<exists>a. AveragePerFile a \<in> set (printed (snd (main e)))) \<longrightarrow>
         1 \<le> length (find_mojo_test_files e ''tests''))"
proof (cases "find_mojo_test_files e ''tests'' = []")
  case True
  then show ?thesis using main_empty [OF True] by simp
next
  case False
  then have "1 \<le> length (find_mojo_test_files e ''tests'')"
    by (cases "find_mojo_test_files e ''tests''") auto
  with main_nonempty [OF False] False show ?thesis by (auto split: if_splits)
qed

theorem main_zero_files_witness:
  "find_mojo_test_files empty_env ''tests'' = []
   \<and> main empty_env = (Returned, \<lparr>ticks = 0, printed = [NoFilesNotice], invoked = []\<rparr>)
   \<and> (\<exists>t. TotalRuntime t \<in> set (printed (snd (main example_env))))
   \<and> (\<exists>a. AveragePerFile a \<in> set (printed (snd (main example_env))))
   \<and> 1 \<le> length (find_mojo_test_files example_env ''tests'')"
proof -
  have "find_mojo_test_files example_env ''tests'' \<noteq> []"
    by (simp add: example_find)
  from main_nonempty [OF this]
  have "\<exists>t. TotalRuntime t \<in> set (printed (snd (main example_env)))"
    and "\<exists>a. AveragePerFile a \<in> set (printed (snd (main example_env)))"
    by auto
  then show ?thesis
    using main_zero_files [of empty_env] main_zero_files [of example_env] empty_find
    by simp
qed

section \<open>Properties of the file system operations\<close>


lemma map_of_filter_gone: "map_of (filter (\<lambda>(k, _). k \<noteq> p) f) p = None"
  by (induction f) auto

lemma put_file_lookup: "map_of (put_file f p c) p = Some (RegularFile c)"
proof (cases "path_exists f p")
  case True
  then have "map_of (map (\<lambda>(q, x). if q = p then (q, RegularFile c) else (q, x)) f) p
      = Some (RegularFile c)"
    unfolding path_exists_def by (induction f) (auto split: if_splits)
  with True show ?thesis by (simp add: put_file_def)
next
  case False
  then show ?thesis by (simp add: put_file_def path_exists_def map_add_def)
qed

lemma put_file_absent:
  "\<not> path_exists f p \<Longrightarrow> put_file f p c = f @ [(p, RegularFile c)]"
  by (simp add: put_file_def)

lemma write_file_lookup:
  "write_file f p c = Inr f' \<Longrightarrow> map_of f' p = Some (RegularFile c)"
  by (auto simp add: write_file_def put_file_lookup split: option.splits entry.splits)

lemma tool_effect_short: "length argv \<noteq> 5 \<Longrightarrow> tool_effect e argv rc f = f"
  by (simp add: tool_effect_def)

section \<open>Properties of the recipe generator\<close>

lemma format_all_map:
  "format_all deps = Inr run \<Longrightarrow>
     map Inr run = map (\<lambda>(n, v). format_dependency n v) deps"
  by (induction deps arbitrary: run) (auto split: sum.splits)

lemma build_line_diverges:
  assumes "n \<noteq> ''zlib''"
  shows "''pixi run mojo package zlib -o ${PREFIX}/lib/mojo/zlib.mojopkg''
           \<noteq> ''pixi run mojo package '' @ n @ '' -o ${PREFIX}/lib/mojo/'' @ n @ ''.mojopkg''"
proof
  assume eq: "''pixi run mojo package zlib -o ${PREFIX}/lib/mojo/zlib.mojopkg''
           = ''pixi run mojo package '' @ n @ '' -o ${PREFIX}/lib/mojo/'' @ n @ ''.mojopkg''"
  then have tl: "''zlib -o ${PREFIX}/lib/mojo/zlib.mojopkg''
           = n @ '' -o ${PREFIX}/lib/mojo/'' @ n @ ''.mojopkg''"
    by simp
  then have "length ''zlib -o ${PREFIX}/lib/mojo/zlib.mojopkg''
           = length (n @ '' -o ${PREFIX}/lib/mojo/'' @ n @ ''.mojopkg'')"
    by (rule arg_cong)
  then have len: "length n = 4" by simp
  from tl have "take 4 ''zlib -o ${PREFIX}/lib/mojo/zlib.mojopkg''
           = take 4 (n @ '' -o ${PREFIX}/lib/mojo/'' @ n @ ''.mojopkg'')"
    by (rule arg_cong)
  with len have "n = ''zlib''" by simp
  with assms show False by simp
qed

text \<open>
  Claim C5. A recipe that \<open>generate_recipe\<close> writes takes \<open>package.name\<close> and
  \<open>package.version\<close> from the configuration, while the build line names the fixed
  package \<open>zlib\<close>: when the configured name is not \<open>zlib\<close> the two differ, and the build
  line is not the one the configured name would give. \<open>requirements.run\<close> is
  \<open>format_dependency\<close> applied to every entry of the dependency mapping, in its order.
\<close>

theorem generate_recipe_spec:
  "generate_recipe e w = (Done, w') \<longrightarrow>
     (\<exists>r. recipe_document e (fs w) = Inr r
        \<and> map_of (fs w') ''recipe.yaml'' = Some (RegularFile (yaml_dump e r))
        \<and> recipe_package_name r = package_name (PROJECT_CONFIG e)
        \<and> recipe_package_version r = package_version (PROJECT_CONFIG e)
        \<and> build_script r =
             [''mkdir -p ${PREFIX}/lib/mojo'',
              ''pixi run mojo package zlib -o ${PREFIX}/lib/mojo/zlib.mojopkg'']
        \<and> (package_name (PROJECT_CONFIG e) \<noteq> ''zlib'' \<longrightarrow>
              recipe_package_name r \<noteq> ''zlib''
              \<and> build_script r ! 1 \<noteq>
                  ''pixi run mojo package '' @ package_name (PROJECT_CONFIG e)
                    @ '' -o ${PREFIX}/lib/mojo/'' @ package_name (PROJECT_CONFIG e) @ ''.mojopkg'')
        \<and> map Inr (requirements_run r) =
             map (\<lambda>(name, version). format_dependency name version)
               (dependencies (PROJECT_CONFIG e)))"
proof
  assume ok: "generate_recipe e w = (Done, w')"
  then obtain r where r: "recipe_document e (fs w) = Inr r"
    by (auto simp add: generate_recipe_def split: sum.splits)
  with ok obtain f' where f': "write_file (fs w) ''recipe.yaml'' (yaml_dump e r) = Inr f'"
    and w': "fs w' = f'"
    by (auto simp add: generate_recipe_def emit_def split: sum.splits)
  from r obtain run where run: "format_all (dependencies (PROJECT_CONFIG e)) = Inr run"
    and doc: "requirements_run r = run"
      "recipe_package_name r = package_name (PROJECT_CONFIG e)"
      "recipe_package_version r = package_version (PROJECT_CONFIG e)"
      "build_script r =
             [''mkdir -p ${PREFIX}/lib/mojo'',
              ''pixi run mojo package zlib -o ${PREFIX}/lib/mojo/zlib.mojopkg'']"
    by (auto simp add: recipe_document_def Let_def split: sum.splits)
  have "map_of (fs w') ''recipe.yaml'' = Some (RegularFile (yaml_dump e r))"
    using write_file_lookup [OF f'] w' by simp
  moreover have "map Inr (requirements_run r) =
             map (\<lambda>(name, version). format_dependency name version)
               (dependencies (PROJECT_CONFIG e))"
    using format_all_map [OF run] doc(1) by simp
  ultimately show "\<exists>r. recipe_document e (fs w) = Inr r
        \<and> map_of (fs w') ''recipe.yaml'' = Some (RegularFile (yaml_dump e r))
        \<and> recipe_package_name r = package_name (PROJECT_CONFIG e)
        \<and> recipe_package_version r = package_version (PROJECT_CONFIG e)
        \<and> build_script r =
             [''mkdir -p ${PREFIX}/lib/mojo'',
              ''pixi run mojo package zlib -o ${PREFIX}/lib/mojo/zlib.mojopkg'']
        \<and> (package_name (PROJECT_CONFIG e) \<noteq> ''zlib'' \<longrightarrow>
              recipe_package_name r \<noteq> ''zlib''
              \<and> build_script r ! 1 \<noteq>
                  ''pixi run mojo package '' @ package_name (PROJECT_CONFIG e)
                    @ '' -o ${PREFIX}/lib/mojo/'' @ package_name (PROJECT_CONFIG e) @ ''.mojopkg'')
        \<and> map Inr (requirements_run r) =
             map (\<lambda>(name, version). format_dependency name version)
               (dependencies (PROJECT_CONFIG e))"
    using r doc build_line_diverges [of "package_name (PROJECT_CONFIG e)"] by simp
qed

lemma example_recipe:
  "recipe_document example_machine (fs example_world) =
     Inr \<lparr>context_version = ''13.4.2'', recipe_package_name = ''mojo-zlib'',
        recipe_package_version = ''0.1.0'',
        source_paths = [''src'', ''LICENSE''],
        build_script =
          [''mkdir -p ${PREFIX}/lib/mojo'',
           ''pixi run mojo package zlib -o ${PREFIX}/lib/mojo/zlib.mojopkg''],
        requirements_run = [''max >= 25.4'', ''zlib < 2'', ''python == 3.12.*''],
        about_homepage = ''https://example.org'', about_license = ''MIT'',
        about_license_file = ''LICENSE'', about_summary = ''zlib for Mojo'',
        about_description = ''Read me'', about_repository = ''https://example.org/repo''\<rparr>"
  by (simp add: recipe_document_def example_machine_def example_world_def example_config_def
        format_dependency_def getitem_def read_text_def)

lemma example_generate:
  "generate_recipe example_machine example_world =
     (Done, \<lparr>fs = fs example_world @ [(''recipe.yaml'', RegularFile ''max >= 25.4zlib < 2python == 3.12.*'')],
             trace = [Wrote ''recipe.yaml'' ''max >= 25.4zlib < 2python == 3.12.*'']\<rparr>)"
  unfolding generate_recipe_def example_recipe
  by (simp add: example_machine_def example_world_def write_file_def put_file_def path_exists_def
        parent_check_def parent_of_def emit_def)

theorem generate_recipe_spec_witness:
  "fst (generate_recipe example_machine example_world) = Done
   \<and> package_name (PROJECT_CONFIG example_machine) \<noteq> ''zlib''
   \<and> (\<exists>r. recipe_document example_machine (fs example_world) = Inr r
        \<and> map_of (fs (snd (generate_recipe example_machine example_world))) ''recipe.yaml''
            = Some (RegularFile (yaml_dump example_machine r))
        \<and> recipe_package_name r = ''mojo-zlib''
        \<and> build_script r ! 1 = ''pixi run mojo package zlib -o ${PREFIX}/lib/mojo/zlib.mojopkg''
        \<and> requirements_run r = [''max >= 25.4'', ''zlib < 2'', ''python == 3.12.*''])"
proof -
  have g: "generate_recipe example_machine example_world =
      (Done, snd (generate_recipe example_machine example_world))"
    using example_generate by simp
  have n: "package_name (PROJECT_CONFIG example_machine) \<noteq> ''zlib''"
    by (simp add: example_machine_def example_config_def)
  have f: "fst (generate_recipe example_machine example_world) = Done"
    using example_generate by simp
  from generate_recipe_spec [of example_machine example_world
        "snd (generate_recipe example_machine example_world)"] g
  obtain r where r: "recipe_document example_machine (fs example_world) = Inr r"
    and m: "map_of (fs (snd (generate_recipe example_machine example_world))) ''recipe.yaml''
            = Some (RegularFile (yaml_dump example_machine r))"
    by blast
  from r example_recipe
  have v: "recipe_package_name r = ''mojo-zlib''"
    "build_script r ! 1 = ''pixi run mojo package zlib -o ${PREFIX}/lib/mojo/zlib.mojopkg''"
    "requirements_run r = [''max >= 25.4'', ''zlib < 2'', ''python == 3.12.*'']"
    by auto
  from f n r m v show ?thesis by blast
qed

section \<open>Properties of the build orchestrator\<close>

lemma ran_append [simp]: "ran (xs @ ys) = ran xs @ ran ys"
  by (induction xs rule: ran.induct) auto

lemma unlinked_append [simp]: "unlinked (xs @ ys) = unlinked xs @ unlinked ys"
  by (induction xs rule: unlinked.induct) auto

lemma run_checked_plain:
  assumes "length argv \<noteq> 5"
  shows "run_checked e argv w =
     (case subprocess_run e argv of
        Failed ex \<Rightarrow> (Raise ex, w)
      | Completed rc out err \<Rightarrow>
          (if rc \<noteq> 0 then Raise (Exc CalledProcessError ''Command returned non-zero exit status'')
           else Done, emit (Ran argv rc) w))"
  using assms by (simp add: run_checked_def tool_effect_short Let_def split: proc.splits)

lemma length_build_argv: "length (build_argv e) \<noteq> 5"
  by (simp add: build_argv_def)

lemma generate_recipe_trace:
  assumes "generate_recipe e w = (r, w')"
  shows "(r = Done \<and> (\<exists>c. trace w' = trace w @ [Wrote ''recipe.yaml'' c]
                         \<and> map_of (fs w') ''recipe.yaml'' = Some (RegularFile c)))
         \<or> ((\<exists>ex. r = Raise ex) \<and> w' = w)"
  using assms
  by (auto simp add: generate_recipe_def emit_def write_file_lookup split: sum.splits)

lemma os_remove_file:
  assumes "map_of (fs w) p = Some (RegularFile c)"
  shows "os_remove p w = (Done, w\<lparr>fs := filter (\<lambda>(q, _). q \<noteq> p) (fs w), trace := trace w @ [Unlink p]\<rparr>)"
  using assms by (simp add: os_remove_def emit_def)

lemma build_done:
  assumes "build_conda_package e w = (Done, w')"
  shows "\<not> path_exists (fs w') RECIPE_PATH
         \<and> (if path_exists (fs w) RECIPE_PATH
             then trace w' = trace w @ [Ran (build_argv e) 0, Unlink ''recipe.yaml'']
             else \<exists>c. trace w' = trace w @ [Wrote ''recipe.yaml'' c, Ran (build_argv e) 0,
                                           Unlink ''recipe.yaml''])"
proof -
  let ?g = "if \<not> path_exists (fs w) RECIPE_PATH then generate_recipe e w else (Done, w)"
  obtain r1 w1 where g: "?g = (r1, w1)" by (cases ?g)
  with assms have r1: "r1 = Done"
    by (cases r1) (auto simp add: build_conda_package_def)
  obtain r2 w2 where b: "run_checked e (build_argv e) w1 = (r2, w2)"
    by (cases "run_checked e (build_argv e) w1")
  with assms g r1 have r2: "r2 = Done" and rm: "os_remove ''recipe.yaml'' w2 = (Done, w')"
    by (cases r2; auto simp add: build_conda_package_def)+
  from b r2 have w2: "w2 = emit (Ran (build_argv e) 0) w1"
    by (auto simp add: run_checked_plain [OF length_build_argv] split: proc.splits if_splits)
  from rm have gone: "\<not> path_exists (fs w') RECIPE_PATH"
    by (auto simp add: os_remove_def emit_def path_exists_def RECIPE_PATH_def map_of_filter_gone
          split: option.splits entry.splits)
  from rm have tr: "trace w' = trace w2 @ [Unlink ''recipe.yaml'']"
    by (auto simp add: os_remove_def emit_def split: option.splits entry.splits)
  show ?thesis
  proof (cases "path_exists (fs w) RECIPE_PATH")
    case True
    with g have "w1 = w" by simp
    with gone tr w2 True show ?thesis by (simp add: emit_def)
  next
    case False
    with g r1 have "generate_recipe e w = (Done, w1)" by simp
    from generate_recipe_trace [OF this] obtain c where "trace w1 = trace w @ [Wrote ''recipe.yaml'' c]"
      by auto
    with gone tr w2 False show ?thesis by (simp add: emit_def)
  qed
qed

lemma build_failed:
  assumes run: "subprocess_run e (build_argv e) = Completed rc out err" and rc: "rc \<noteq> 0"
      and b: "build_conda_package e w = (r, w')"
  shows "(\<exists>ex. r = Raise ex)
         \<and> unlinked (trace w') = unlinked (trace w)
         \<and> ((ran (trace w') = ran (trace w) @ [(build_argv e, rc)]
              \<and> (\<exists>msg. r = Raise (Exc CalledProcessError msg))
              \<and> path_exists (fs w') RECIPE_PATH
              \<and> (path_exists (fs w) RECIPE_PATH \<longrightarrow> fs w' = fs w))
             \<or> (ran (trace w') = ran (trace w) \<and> \<not> path_exists (fs w) RECIPE_PATH
                 \<and> generate_recipe e w = (r, w')))"
proof (cases "path_exists (fs w) RECIPE_PATH")
  case True
  with b run rc show ?thesis
    by (auto simp add: build_conda_package_def run_checked_plain [OF length_build_argv] emit_def)
next
  case False
  obtain r1 w1 where g: "generate_recipe e w = (r1, w1)" by (cases "generate_recipe e w")
  from generate_recipe_trace [OF g] show ?thesis
  proof
    assume ok: "r1 = Done \<and> (\<exists>c. trace w1 = trace w @ [Wrote ''recipe.yaml'' c]
                         \<and> map_of (fs w1) ''recipe.yaml'' = Some (RegularFile c))"
    with b run rc g False show ?thesis
      by (auto simp add: build_conda_package_def run_checked_plain [OF length_build_argv] emit_def
            path_exists_def RECIPE_PATH_def)
  next
    assume "(\<exists>ex. r1 = Raise ex) \<and> w1 = w"
    with b g False show ?thesis
      by (auto simp add: build_conda_package_def)
  qed
qed

lemma filter_absent:
  "map_of f p = None \<Longrightarrow> filter (\<lambda>(q, _). q \<noteq> p) f = f"
  by (induction f) (auto split: if_splits)

lemma generate_recipe_absent:
  assumes "\<not> path_exists (fs w) RECIPE_PATH"
  shows "generate_recipe e w =
     (case recipe_document e (fs w) of
        Inl ex \<Rightarrow> (Raise ex, w)
      | Inr doc \<Rightarrow>
          (Done, w\<lparr>fs := fs w @ [(''recipe.yaml'', RegularFile (yaml_dump e doc))],
                   trace := trace w @ [Wrote ''recipe.yaml'' (yaml_dump e doc)]\<rparr>))"
  using assms
  by (simp add: generate_recipe_def write_file_def put_file_def parent_check_def parent_of_def
        path_exists_def RECIPE_PATH_def emit_def split: sum.splits)

lemma build_success_absent:
  assumes absent: "\<not> path_exists (fs w) RECIPE_PATH"
      and doc: "recipe_document e (fs w) = Inr doc"
      and run: "subprocess_run e (build_argv e) = Completed 0 out err"
  shows "build_conda_package e w =
     (Done, w\<lparr>trace := trace w @ [Wrote ''recipe.yaml'' (yaml_dump e doc), Ran (build_argv e) 0,
                                    Unlink ''recipe.yaml'']\<rparr>)"
proof -
  let ?c = "yaml_dump e doc"
  let ?w1 = "w\<lparr>fs := fs w @ [(''recipe.yaml'', RegularFile ?c)],
                trace := trace w @ [Wrote ''recipe.yaml'' ?c]\<rparr>"
  have none: "map_of (fs w) ''recipe.yaml'' = None"
    using absent by (simp add: path_exists_def RECIPE_PATH_def)
  have g: "generate_recipe e w = (Done, ?w1)"
    using generate_recipe_absent [OF absent] doc by simp
  have b: "run_checked e (build_argv e) ?w1 = (Done, emit (Ran (build_argv e) 0) ?w1)"
    using run by (simp add: run_checked_plain [OF length_build_argv])
  have reg: "map_of (fs (emit (Ran (build_argv e) 0) ?w1)) ''recipe.yaml'' = Some (RegularFile ?c)"
    using none by (simp add: emit_def map_add_def)
  have "build_conda_package e w = os_remove ''recipe.yaml'' (emit (Ran (build_argv e) 0) ?w1)"
    using absent by (simp add: build_conda_package_def g b)
  then show ?thesis
    unfolding os_remove_file [OF reg]
    using filter_absent [OF none] by (simp add: emit_def)
qed

lemma build_generation_failed:
  assumes "\<not> path_exists (fs w) RECIPE_PATH" and "recipe_document e (fs w) = Inl ex"
  shows "build_conda_package e w = (Raise ex, w)"
  using assms generate_recipe_absent [OF assms(1), of e]
  by (simp add: build_conda_package_def)

lemma build_success_present:
  assumes reg: "map_of (fs w) RECIPE_PATH = Some (RegularFile content)"
      and run: "subprocess_run e (build_argv e) = Completed 0 out err"
  shows "build_conda_package e w =
     (Done, w\<lparr>fs := filter (\<lambda>(q, _). q \<noteq> ''recipe.yaml'') (fs w),
              trace := trace w @ [Ran (build_argv e) 0, Unlink ''recipe.yaml'']\<rparr>)"
proof -
  have ex: "path_exists (fs w) RECIPE_PATH" using reg by (simp add: path_exists_def)
  have b: "run_checked e (build_argv e) w = (Done, emit (Ran (build_argv e) 0) w)"
    using run by (simp add: run_checked_plain [OF length_build_argv])
  have reg': "map_of (fs (emit (Ran (build_argv e) 0) w)) ''recipe.yaml'' = Some (RegularFile content)"
    using reg by (simp add: emit_def RECIPE_PATH_def)
  have "build_conda_package e w = os_remove ''recipe.yaml'' (emit (Ran (build_argv e) 0) w)"
    using ex by (simp add: build_conda_package_def b)
  then show ?thesis
    unfolding os_remove_file [OF reg'] by (simp add: emit_def)
qed

text \<open>
  Claim C4. With no recipe file beforehand, a recipe that can be generated and a build
  tool that exits with 0, \<open>build_conda_package\<close> returns normally after writing one
  recipe, running the build once and deleting the recipe; the file system is as before.
  With a recipe file beforehand and a build tool that exits with 0, nothing is written,
  the build runs once and the file is deleted all the same. When the recipe cannot be
  generated the command ends with that exception before the tool is started. Any run
  that returns normally has this shape. When the build tool exits non-zero, the command
  ends in an exception and deletes nothing: either the build ran exactly once,
  \<open>CalledProcessError\<close> is raised and the recipe file is still there (a file that existed
  beforehand is unchanged), or generating the recipe had already failed and the tool was
  never started.
\<close>

theorem build_conda_package_spec:
  "(\<forall>doc out err. \<not> path_exists (fs w) RECIPE_PATH \<and> recipe_document e (fs w) = Inr doc
        \<and> subprocess_run e (build_argv e) = Completed 0 out err \<longrightarrow>
          (\<exists>w1. build_conda_package e w = (Done, w1)
             \<and> trace w1 = trace w @ [Wrote ''recipe.yaml'' (yaml_dump e doc),
                                      Ran (build_argv e) 0, Unlink ''recipe.yaml'']
             \<and> \<not> path_exists (fs w1) RECIPE_PATH
             \<and> fs w1 = fs w))
   \<and> (\<forall>content out err. map_of (fs w) RECIPE_PATH = Some (RegularFile content)
        \<and> subprocess_run e (build_argv e) = Completed 0 out err \<longrightarrow>
          (\<exists>w1. build_conda_package e w = (Done, w1)
             \<and> trace w1 = trace w @ [Ran (build_argv e) 0, Unlink ''recipe.yaml'']
             \<and> \<not> path_exists (fs w1) RECIPE_PATH
             \<and> fs w1 = filter (\<lambda>(q, _). q \<noteq> ''recipe.yaml'') (fs w)))
   \<and> (\<forall>ex. \<not> path_exists (fs w) RECIPE_PATH \<and> recipe_document e (fs w) = Inl ex \<longrightarrow>
          build_conda_package e w = (Raise ex, w))
   \<and> (\<not> path_exists (fs w) RECIPE_PATH \<and> build_conda_package e w = (Done, w') \<longrightarrow>
      (\<exists>content. trace w' = trace w @ [Wrote ''recipe.yaml'' content, Ran (build_argv e) 0,
                                       Unlink ''recipe.yaml''])
      \<and> \<not> path_exists (fs w') RECIPE_PATH)
   \<and> (\<forall>content. map_of (fs w) RECIPE_PATH = Some (RegularFile content)
        \<and> build_conda_package e w = (Done, w') \<longrightarrow>
          trace w' = trace w @ [Ran (build_argv e) 0, Unlink ''recipe.yaml'']
          \<and> \<not> path_exists (fs w') RECIPE_PATH)
   \<and> (\<forall>rc out err. subprocess_run e (build_argv e) = Completed rc out err \<and> rc \<noteq> 0
        \<and> build_conda_package e w = (r, w') \<longrightarrow>
          (\<exists>ex. r = Raise ex)
          \<and> unlinked (trace w') = unlinked (trace w)
          \<and> ((ran (trace w') = ran (trace w) @ [(build_argv e, rc)]
               \<and> (\<exists>msg. r = Raise (Exc CalledProcessError msg))
               \<and> path_exists (fs w') RECIPE_PATH
               \<and> (path_exists (fs w) RECIPE_PATH \<longrightarrow> fs w' = fs w))
              \<or> (ran (trace w') = ran (trace w) \<and> \<not> path_exists (fs w) RECIPE_PATH
                  \<and> generate_recipe e w = (r, w'))))"
proof (intro conjI allI impI)
  fix doc out err
  assume h: "\<not> path_exists (fs w) RECIPE_PATH \<and> recipe_document e (fs w) = Inr doc
        \<and> subprocess_run e (build_argv e) = Completed 0 out err"
  then have "build_conda_package e w =
     (Done, w\<lparr>trace := trace w @ [Wrote ''recipe.yaml'' (yaml_dump e doc), Ran (build_argv e) 0,
                                    Unlink ''recipe.yaml'']\<rparr>)"
    using build_success_absent by blast
  with h show "\<exists>w1. build_conda_package e w = (Done, w1)
             \<and> trace w1 = trace w @ [Wrote ''recipe.yaml'' (yaml_dump e doc),
                                      Ran (build_argv e) 0, Unlink ''recipe.yaml'']
             \<and> \<not> path_exists (fs w1) RECIPE_PATH
             \<and> fs w1 = fs w"
    by simp
next
  fix content out err
  assume h: "map_of (fs w) RECIPE_PATH = Some (RegularFile content)
        \<and> subprocess_run e (build_argv e) = Completed 0 out err"
  then have "build_conda_package e w =
     (Done, w\<lparr>fs := filter (\<lambda>(q, _). q \<noteq> ''recipe.yaml'') (fs w),
              trace := trace w @ [Ran (build_argv e) 0, Unlink ''recipe.yaml'']\<rparr>)"
    using build_success_present by blast
  then show "\<exists>w1. build_conda_package e w = (Done, w1)
             \<and> trace w1 = trace w @ [Ran (build_argv e) 0, Unlink ''recipe.yaml'']
             \<and> \<not> path_exists (fs w1) RECIPE_PATH
             \<and> fs w1 = filter (\<lambda>(q, _). q \<noteq> ''recipe.yaml'') (fs w)"
    by (simp add: path_exists_def RECIPE_PATH_def map_of_filter_gone)
next
  fix ex
  assume "\<not> path_exists (fs w) RECIPE_PATH \<and> recipe_document e (fs w) = Inl ex"
  then show "build_conda_package e w = (Raise ex, w)"
    using build_generation_failed by blast
next
  assume "\<not> path_exists (fs w) RECIPE_PATH \<and> build_conda_package e w = (Done, w')"
  then show "\<exists>content. trace w' = trace w @ [Wrote ''recipe.yaml'' content, Ran (build_argv e) 0,
                                       Unlink ''recipe.yaml'']"
    and "\<not> path_exists (fs w') RECIPE_PATH"
    using build_done [of e w w'] by auto
next
  fix content
  assume "map_of (fs w) RECIPE_PATH = Some (RegularFile content)
        \<and> build_conda_package e w = (Done, w')"
  then show "trace w' = trace w @ [Ran (build_argv e) 0, Unlink ''recipe.yaml'']"
    and "\<not> path_exists (fs w') RECIPE_PATH"
    using build_done [of e w w'] by (auto simp add: path_exists_def)
next
  fix rc out err
  assume h: "subprocess_run e (build_argv e) = Completed rc out err \<and> rc \<noteq> 0
        \<and> build_conda_package e w = (r, w')"
  from h have a: "subprocess_run e (build_argv e) = Completed rc out err" and b: "rc \<noteq> 0"
    and c: "build_conda_package e w = (r, w')" by auto
  from build_failed [OF a b c]
  show "\<exists>ex. r = Raise ex" and "unlinked (trace w') = unlinked (trace w)"
    and "(ran (trace w') = ran (trace w) @ [(build_argv e, rc)]
               \<and> (\<exists>msg. r = Raise (Exc CalledProcessError msg))
               \<and> path_exists (fs w') RECIPE_PATH
               \<and> (path_exists (fs w) RECIPE_PATH \<longrightarrow> fs w' = fs w))
              \<or> (ran (trace w') = ran (trace w) \<and> \<not> path_exists (fs w) RECIPE_PATH
                  \<and> generate_recipe e w = (r, w'))"
    by blast+
qed

lemma failing_build:
  "build_conda_package failing_machine world_with_recipe =
     (Raise (Exc CalledProcessError ''Command returned non-zero exit status''),
      \<lparr>fs = fs world_with_recipe, trace = [Ran [''pixi'', ''build'', ''-o'', ''/out''] 1]\<rparr>)"
proof -
  have "path_exists (fs world_with_recipe) RECIPE_PATH"
    by (simp add: world_with_recipe_def path_exists_def RECIPE_PATH_def)
  then show ?thesis
    unfolding build_conda_package_def
    by (simp add: run_checked_plain [OF length_build_argv])
       (simp add: failing_machine_def example_machine_def build_argv_def emit_def
          world_with_recipe_def)
qed

theorem build_conda_package_spec_witness:
  "\<not> path_exists (fs example_world) RECIPE_PATH
   \<and> (\<exists>doc. recipe_document example_machine (fs example_world) = Inr doc
          \<and> yaml_dump example_machine doc = ''max >= 25.4zlib < 2python == 3.12.*'')
   \<and> subprocess_run example_machine (build_argv example_machine) = Completed 0 [] []
   \<and> (\<exists>w1. build_conda_package example_machine example_world = (Done, w1)
          \<and> trace w1 = [Wrote ''recipe.yaml'' ''max >= 25.4zlib < 2python == 3.12.*'',
                         Ran [''pixi'', ''build'', ''-o'', ''/out''] 0, Unlink ''recipe.yaml'']
          \<and> \<not> path_exists (fs w1) RECIPE_PATH
          \<and> fs w1 = fs example_world)
   \<and> map_of (fs world_with_recipe) RECIPE_PATH = Some (RegularFile ''mine'')
   \<and> (\<exists>w1. build_conda_package example_machine world_with_recipe = (Done, w1)
          \<and> trace w1 = [Ran [''pixi'', ''build'', ''-o'', ''/out''] 0, Unlink ''recipe.yaml'']
          \<and> \<not> path_exists (fs w1) RECIPE_PATH
          \<and> fs w1 = [(''README.md'', RegularFile ''Read me'')])
   \<and> recipe_document example_machine [] = Inl (Exc FileNotFoundError ''README.md'')
   \<and> build_conda_package example_machine \<lparr>fs = [], trace = []\<rparr>
        = (Raise (Exc FileNotFoundError ''README.md''), \<lparr>fs = [], trace = []\<rparr>)
   \<and> subprocess_run failing_machine (build_argv failing_machine) = Completed 1 [] []
   \<and> fst (build_conda_package failing_machine world_with_recipe) =
        Raise (Exc CalledProcessError ''Command returned non-zero exit status'')
   \<and> ran (trace (snd (build_conda_package failing_machine world_with_recipe))) =
        [(build_argv failing_machine, 1)]
   \<and> unlinked (trace (snd (build_conda_package failing_machine world_with_recipe))) = []
   \<and> fs (snd (build_conda_package failing_machine world_with_recipe)) = fs world_with_recipe"
proof -
  have a: "\<not> path_exists (fs example_world) RECIPE_PATH"
    by (simp add: example_world_def path_exists_def RECIPE_PATH_def)
  have b: "map_of (fs world_with_recipe) RECIPE_PATH = Some (RegularFile ''mine'')"
    by (simp add: world_with_recipe_def RECIPE_PATH_def)
  have c: "subprocess_run failing_machine (build_argv failing_machine) = Completed 1 [] []"
    by (simp add: failing_machine_def)
  have d: "subprocess_run example_machine (build_argv example_machine) = Completed 0 [] []"
    by (simp add: example_machine_def build_argv_def upload_argv_def)
  have n: "\<not> path_exists (fs \<lparr>fs = [], trace = []\<rparr>) RECIPE_PATH"
    by (simp add: path_exists_def)
  have m: "recipe_document example_machine [] = Inl (Exc FileNotFoundError ''README.md'')"
    by (simp add: recipe_document_def example_machine_def example_config_def
          format_dependency_def getitem_def read_text_def)
  have t: "trace example_world = []" "trace world_with_recipe = []"
    by (simp_all add: example_world_def world_with_recipe_def)
  have v: "build_argv example_machine = [''pixi'', ''build'', ''-o'', ''/out'']"
    "build_argv failing_machine = [''pixi'', ''build'', ''-o'', ''/out'']"
    by (simp_all add: build_argv_def failing_machine_def example_machine_def)
  obtain doc where doc: "recipe_document example_machine (fs example_world) = Inr doc"
    and y: "yaml_dump example_machine doc = ''max >= 25.4zlib < 2python == 3.12.*''"
    using example_recipe by (simp add: example_machine_def)
  have f: "filter (\<lambda>(q, _). q \<noteq> ''recipe.yaml'') (fs world_with_recipe)
      = [(''README.md'', RegularFile ''Read me'')]"
    by (simp add: world_with_recipe_def)
  note s1 = build_conda_package_spec [where e = example_machine and w = example_world]
  note s2 = build_conda_package_spec [where e = example_machine and w = world_with_recipe]
  note s3 = build_conda_package_spec [where e = example_machine and w = "\<lparr>fs = [], trace = []\<rparr>"]
  note s4 = build_conda_package_spec [where e = failing_machine and w = world_with_recipe
        and r = "fst (build_conda_package failing_machine world_with_recipe)"
        and w' = "snd (build_conda_package failing_machine world_with_recipe)"]
  from s1 a doc d
  have p1: "\<exists>w1. build_conda_package example_machine example_world = (Done, w1)
          \<and> trace w1 = trace example_world
               @ [Wrote ''recipe.yaml'' (yaml_dump example_machine doc),
                  Ran (build_argv example_machine) 0, Unlink ''recipe.yaml'']
          \<and> \<not> path_exists (fs w1) RECIPE_PATH
          \<and> fs w1 = fs example_world"
    by blast
  from s2 b d
  have p2: "\<exists>w1. build_conda_package example_machine world_with_recipe = (Done, w1)
          \<and> trace w1 = trace world_with_recipe
               @ [Ran (build_argv example_machine) 0, Unlink ''recipe.yaml'']
          \<and> \<not> path_exists (fs w1) RECIPE_PATH
          \<and> fs w1 = filter (\<lambda>(q, _). q \<noteq> ''recipe.yaml'') (fs world_with_recipe)"
    by blast
  from s3 n m
  have p3: "build_conda_package example_machine \<lparr>fs = [], trace = []\<rparr>
        = (Raise (Exc FileNotFoundError ''README.md''), \<lparr>fs = [], trace = []\<rparr>)"
    by simp
  have p4: "fst (build_conda_package failing_machine world_with_recipe) =
        Raise (Exc CalledProcessError ''Command returned non-zero exit status'')"
    "ran (trace (snd (build_conda_package failing_machine world_with_recipe))) =
        [(build_argv failing_machine, 1)]"
    "unlinked (trace (snd (build_conda_package failing_machine world_with_recipe))) = []"
    "fs (snd (build_conda_package failing_machine world_with_recipe)) = fs world_with_recipe"
    using s4 c by (simp_all add: failing_build v)
  from p1 have q1: "\<exists>w1. build_conda_package example_machine example_world = (Done, w1)
          \<and> trace w1 = [Wrote ''recipe.yaml'' ''max >= 25.4zlib < 2python == 3.12.*'',
                         Ran [''pixi'', ''build'', ''-o'', ''/out''] 0, Unlink ''recipe.yaml'']
          \<and> \<not> path_exists (fs w1) RECIPE_PATH
          \<and> fs w1 = fs example_world"
    by (simp only: t v y append_Nil)
  from p2 have q2: "\<exists>w1. build_conda_package example_machine world_with_recipe = (Done, w1)
          \<and> trace w1 = [Ran [''pixi'', ''build'', ''-o'', ''/out''] 0, Unlink ''recipe.yaml'']
          \<and> \<not> path_exists (fs w1) RECIPE_PATH
          \<and> fs w1 = [(''README.md'', RegularFile ''Read me'')]"
    by (simp only: t v f append_Nil)
  from doc y have q0: "\<exists>doc. recipe_document example_machine (fs example_world) = Inr doc
          \<and> yaml_dump example_machine doc = ''max >= 25.4zlib < 2python == 3.12.*''"
    by blast
  from a q0 d q1 b q2 m p3 c p4 show ?thesis by (intro conjI)
qed

section \<open>Properties of the staging directory manager\<close>

lemma not_under_self [simp]: "\<not> under d d"
  by (simp add: under_def startswith_def)

lemma kept_lookup_dir [simp]: "map_of (kept d f) d = None"
  by (induction f) (auto simp add: kept_def)

lemma kept_lookup_under [simp]: "under d q \<Longrightarrow> map_of (kept d f) q = None"
  by (induction f) (auto simp add: kept_def)

lemma kept_idem [simp]: "kept d (kept d f) = kept d f"
  by (simp add: kept_def)

lemma kept_append [simp]: "kept d (f @ g) = kept d f @ kept d g"
  by (simp add: kept_def)

lemma kept_all:
  assumes "map_of f d = None" and "below f d = []"
  shows "kept d f = f"
proof -
  have "\<forall>x \<in> set f. fst x \<noteq> d \<and> \<not> under d (fst x)"
  proof
    fix x assume x: "x \<in> set f"
    from assms(1) x have "fst x \<noteq> d"
      by (metis map_of_eq_None_iff imageI)
    moreover from assms(2) x have "\<not> under d (fst x)"
      by (auto simp add: below_def filter_empty_conv)
    ultimately show "fst x \<noteq> d \<and> \<not> under d (fst x)" by simp
  qed
  then show ?thesis by (auto simp add: kept_def intro!: filter_True)
qed

lemma below_kept [simp]: "below (kept d f) d = []"
  by (auto simp add: below_def kept_def filter_empty_conv)

lemma remove_temp_directory_done:
  assumes "remove_temp_directory e w = (Done, w1)"
      and "path_exists (fs w) (TEMP_DIR e) \<or> below (fs w) (TEMP_DIR e) = []"
  shows "fs w1 = kept (TEMP_DIR e) (fs w)"
proof (cases "path_exists (fs w) (TEMP_DIR e)")
  case True
  with assms(1) show ?thesis
    by (auto simp add: remove_temp_directory_def shutil_rmtree_def print_def emit_def kept_def
          split: option.splits entry.splits)
next
  case False
  with assms have "w1 = w" and "map_of (fs w) (TEMP_DIR e) = None"
    and "below (fs w) (TEMP_DIR e) = []"
    by (auto simp add: remove_temp_directory_def path_exists_def)
  then show ?thesis using kept_all by simp
qed

lemma artifact_facts [simp]:
  "under (TEMP_DIR e) (artifact e)" "artifact e \<noteq> TEMP_DIR e" "TEMP_DIR e \<noteq> artifact e"
  by (simp_all add: artifact_def under_def startswith_def)

lemma package_argv_shape:
  "length (package_argv e) = 5" "take 2 (package_argv e) = [''mojo'', ''package'']"
  "package_argv e ! 3 = ''-o''" "package_argv e ! 4 = artifact e"
  by (simp_all add: package_argv_def artifact_def Let_def)

lemma prepare_done:
  assumes ok: "prepare_temp_directory e w = (Done, w')"
      and wf: "path_exists (fs w) (TEMP_DIR e) \<or> below (fs w) (TEMP_DIR e) = []"
  shows "fs w' = kept (TEMP_DIR e) (fs w)
                   @ [(TEMP_DIR e, Directory),
                      (artifact e, RegularFile (tool_output e (package_argv e)))]"
    and "parent_check (kept (TEMP_DIR e) (fs w)) (TEMP_DIR e) = None"
    and "\<exists>out err. subprocess_run e (package_argv e) = Completed 0 out err"
proof -
  obtain r1 w1 where a: "remove_temp_directory e w = (r1, w1)"
    by (cases "remove_temp_directory e w")
  with ok have r1: "r1 = Done" by (cases r1) (auto simp add: prepare_temp_directory_def)
  obtain r2 w2 where b: "path_mkdir (TEMP_DIR e) w1 = (r2, w2)"
    by (cases "path_mkdir (TEMP_DIR e) w1")
  with ok a r1 have r2: "r2 = Done" and c: "run_checked e (package_argv e) w2 = (Done, w')"
    by (cases r2; auto simp add: prepare_temp_directory_def)+
  have f1: "fs w1 = kept (TEMP_DIR e) (fs w)"
    using remove_temp_directory_done a r1 wf by simp
  from b r2 have f2: "fs w2 = fs w1 @ [(TEMP_DIR e, Directory)]"
    and pc: "parent_check (fs w1) (TEMP_DIR e) = None"
    by (auto simp add: path_mkdir_def emit_def split: if_splits option.splits)
  from pc f1 show "parent_check (kept (TEMP_DIR e) (fs w)) (TEMP_DIR e) = None" by simp
  from c obtain out err where run: "subprocess_run e (package_argv e) = Completed 0 out err"
    by (auto simp add: run_checked_def Let_def split: proc.splits if_splits)
  then show "\<exists>out err. subprocess_run e (package_argv e) = Completed 0 out err" by blast
  have absent: "\<not> path_exists (fs w2) (artifact e)"
    using f1 f2 by (simp add: path_exists_def map_add_def)
  from c run have "fs w' = put_file (fs w2) (artifact e) (tool_output e (package_argv e))"
    by (auto simp add: run_checked_def Let_def emit_def tool_effect_def package_argv_shape)
  with absent f1 f2 show "fs w' = kept (TEMP_DIR e) (fs w)
                   @ [(TEMP_DIR e, Directory),
                      (artifact e, RegularFile (tool_output e (package_argv e)))]"
    by (simp add: put_file_absent)
qed

lemma prepare_again:
  assumes shape: "fs w = base @ [(TEMP_DIR e, Directory), (artifact e, RegularFile c)]"
      and base: "kept (TEMP_DIR e) base = base"
      and pc: "parent_check base (TEMP_DIR e) = None"
      and run: "subprocess_run e (package_argv e) = Completed 0 out err"
  shows "\<exists>w'. prepare_temp_directory e w = (Done, w')
          \<and> fs w' = base @ [(TEMP_DIR e, Directory),
                            (artifact e, RegularFile (tool_output e (package_argv e)))]"
proof -
  have nd: "map_of base (TEMP_DIR e) = None"
    using kept_lookup_dir [of "TEMP_DIR e" base] base by simp
  have na: "map_of base (artifact e) = None"
    using kept_lookup_under [of "TEMP_DIR e" "artifact e" base] base by simp
  have ex: "map_of (fs w) (TEMP_DIR e) = Some Directory"
    using shape nd by (simp add: map_add_def)
  have k: "kept (TEMP_DIR e) (fs w) = base"
    using shape base by (simp add: kept_def)
  obtain w1 where rm: "remove_temp_directory e w = (Done, w1)" and f1: "fs w1 = base"
    using ex k by (simp add: remove_temp_directory_def shutil_rmtree_def path_exists_def
          print_def emit_def kept_def)
  obtain w2 where mk: "path_mkdir (TEMP_DIR e) w1 = (Done, w2)"
    and f2: "fs w2 = base @ [(TEMP_DIR e, Directory)]"
    using nd pc f1 by (simp add: path_mkdir_def path_exists_def emit_def)
  have absent: "\<not> path_exists (fs w2) (artifact e)"
    using na f2 by (simp add: path_exists_def map_add_def)
  obtain w3 where rc: "run_checked e (package_argv e) w2 = (Done, w3)"
    and f3: "fs w3 = put_file (fs w2) (artifact e) (tool_output e (package_argv e))"
    using run by (simp add: run_checked_def Let_def tool_effect_def package_argv_shape emit_def)
  have "prepare_temp_directory e w = (Done, w3)"
    by (simp add: prepare_temp_directory_def rm mk rc)
  moreover have "fs w3 = base @ [(TEMP_DIR e, Directory),
                            (artifact e, RegularFile (tool_output e (package_argv e)))]"
    using f3 f2 absent by (simp add: put_file_absent)
  ultimately show ?thesis by blast
qed

text \<open>
  Claim C9. Whether the staging directory is absent or present with any contents (and
  nothing lies below a directory that does not exist), after a successful
  \<open>prepare_temp_directory\<close> the directory exists, exactly one thing lies below it, the
  artifact the compiler has just written, and everything outside it is as before. A
  second call then succeeds as well and leaves the same file system.
\<close>

theorem prepare_temp_directory_spec:
  assumes "prepare_temp_directory e w = (Done, w')"
      and "path_exists (fs w) (TEMP_DIR e) \<or> below (fs w) (TEMP_DIR e) = []"
  shows "map_of (fs w') (TEMP_DIR e) = Some Directory
         \<and> below (fs w') (TEMP_DIR e) = [artifact e]
         \<and> map_of (fs w') (artifact e) = Some (RegularFile (tool_output e (package_argv e)))
         \<and> kept (TEMP_DIR e) (fs w') = kept (TEMP_DIR e) (fs w)
         \<and> (\<exists>w''. prepare_temp_directory e w' = (Done, w'') \<and> fs w'' = fs w')"
proof -
  let ?base = "kept (TEMP_DIR e) (fs w)"
  note p = prepare_done [OF assms]
  have "map_of (fs w') (TEMP_DIR e) = Some Directory"
    using p(1) by (simp add: map_add_def)
  moreover have "below (fs w') (TEMP_DIR e) = [artifact e]"
    using p(1) below_kept [of "TEMP_DIR e" "fs w"] by (simp add: below_def)
  moreover have "map_of (fs w') (artifact e) = Some (RegularFile (tool_output e (package_argv e)))"
    using p(1) by (simp add: map_add_def)
  moreover have "kept (TEMP_DIR e) (fs w') = ?base"
    using p(1) by (simp add: kept_def)
  moreover have "\<exists>w''. prepare_temp_directory e w' = (Done, w'') \<and> fs w'' = fs w'"
  proof -
    from p(3) obtain out err where "subprocess_run e (package_argv e) = Completed 0 out err"
      by blast
    from prepare_again [OF p(1) kept_idem p(2) this] show ?thesis using p(1) by auto
  qed
  ultimately show ?thesis by simp
qed

lemma example_prepare:
  "prepare_temp_directory example_machine example_world =
     (Done, \<lparr>fs = [(''/home/u'', Directory), (''/out'', Directory),
         (''/out/a.conda'', RegularFile ''A''),
         (''/out/.hidden.conda'', RegularFile ''H''),
         (''/out/b.conda'', RegularFile ''B''),
         (''/out/c.conda'', RegularFile ''C''),
         (''/out/notes.txt'', RegularFile ''N''),
         (''README.md'', RegularFile ''Read me''),
         (''/home/u/tmp'', Directory),
         (''/home/u/tmp/mojo-zlib.mojopkg'', RegularFile ''PKG'')],
     trace =
       [Print ''Removing temp directory.'', Rmtree ''/home/u/tmp'',
        Mkdir ''/home/u/tmp'',
        Ran [''mojo'', ''package'', ''src/mojo-zlib'', ''-o'', ''/home/u/tmp/mojo-zlib.mojopkg''] 0]\<rparr>)"
  by (simp add: prepare_temp_directory_def remove_temp_directory_def shutil_rmtree_def kept_def
        path_mkdir_def parent_check_def parent_of_def run_checked_def tool_effect_def put_file_def
        package_argv_def artifact_def path_exists_def print_def emit_def under_def startswith_def
        example_machine_def example_world_def example_config_def upload_argv_def Let_def)

theorem prepare_temp_directory_spec_witness:
  "path_exists (fs example_world) (TEMP_DIR example_machine)
   \<and> map_of (fs example_world) ''/home/u/tmp/old.bin'' = Some (RegularFile ''x'')
   \<and> fst (prepare_temp_directory example_machine example_world) = Done
   \<and> below (fs (snd (prepare_temp_directory example_machine example_world))) ''/home/u/tmp''
        = [''/home/u/tmp/mojo-zlib.mojopkg'']
   \<and> map_of (fs (snd (prepare_temp_directory example_machine example_world))) ''/home/u/tmp/old.bin''
        = None
   \<and> (\<exists>w''. prepare_temp_directory example_machine
                (snd (prepare_temp_directory example_machine example_world)) = (Done, w'')
          \<and> fs w'' = fs (snd (prepare_temp_directory example_machine example_world)))"
proof -
  have a: "path_exists (fs example_world) (TEMP_DIR example_machine)"
    by (simp add: example_world_def example_machine_def path_exists_def)
  have b: "prepare_temp_directory example_machine example_world =
      (Done, snd (prepare_temp_directory example_machine example_world))"
    by (simp add: example_prepare)
  have c: "TEMP_DIR example_machine = ''/home/u/tmp''"
    "artifact example_machine = ''/home/u/tmp/mojo-zlib.mojopkg''"
    by (simp_all add: example_machine_def artifact_def example_config_def)
  have d: "map_of (fs example_world) ''/home/u/tmp/old.bin'' = Some (RegularFile ''x'')"
    by (simp add: example_world_def)
  have e: "map_of (fs (snd (prepare_temp_directory example_machine example_world))) ''/home/u/tmp/old.bin''
        = None"
    by (simp add: example_prepare)
  have f: "fst (prepare_temp_directory example_machine example_world) = Done"
    by (simp add: example_prepare)
  from prepare_temp_directory_spec [OF b] a c d e f show ?thesis by simp
qed

section \<open>Properties of the publisher\<close>








lemma trace_print [simp]: "trace (print s w) = trace w @ [Print s]"
  by (simp add: print_def emit_def)







end
